theory Spec2Isabelle
  imports Complex_Main
begin

section \<open>The calibration engine of OpenVR-SpaceCalibrator (Calibration.cpp)\<close>

text \<open>
  The embedding follows \<^verbatim>\<open>src/OpenVR-SpaceCalibrator/Calibration.cpp\<close>.

  Numbers. A C++ \<^verbatim>\<open>double\<close> (and the \<^verbatim>\<open>float\<close> entries of an OpenVR matrix) is
  a \<^typ>\<open>real\<close>: rounding and overflow are not modelled, and \<^verbatim>\<open>acos\<close>, \<^verbatim>\<open>sqrt\<close>,
  \<^verbatim>\<open>sin\<close>, \<^verbatim>\<open>cos\<close> are the functions of analysis. The two places where the source
  makes a NaN out of finite numbers are written out: \<^verbatim>\<open>acos\<close> of an argument
  outside [-1, 1], and the division of the centroid accumulators by a zero count. There
  the model returns \<open>None\<close>, to be read as "not a finite number"; a comparison
  with a NaN is false, as in IEEE arithmetic.

  State. The global \<^verbatim>\<open>CalCtx\<close>, the function-local \<^verbatim>\<open>static std::vector<Sample> samples\<close>
  of \<^verbatim>\<open>CalibrationTick\<close> and the calls made on the global \<^verbatim>\<open>InputEmulator\<close> are the
  fields of one record that every operation takes and returns.

  What is not in the source file. Eigen's decompositions and Euler-angle extraction,
  and the \<^verbatim>\<open>%.2f\<close> rendering of \<^verbatim>\<open>snprintf\<close> are parameters, gathered in the record
  \<open>externals\<close>. The declarations of Calibration.h are rebuilt from their uses in
  Calibration.cpp; \<^verbatim>\<open>CalibrationContext::Message\<close> and \<^verbatim>\<open>SaveProfile\<close> follow the
  specification.
\<close>

subsection \<open>Eigen vectors and matrices\<close>

type_synonym Vector3d = "real \<times> real \<times> real"

text \<open>A 3x3 matrix is the triple of its rows.\<close>

type_synonym Matrix3d = "Vector3d \<times> Vector3d \<times> Vector3d"

definition Zero3 :: Vector3d where
  "Zero3 = (0, 0, 0)"

definition Identity3 :: Matrix3d where
  "Identity3 = ((1, 0, 0), (0, 1, 0), (0, 0, 1))"

definition ZeroMatrix3 :: Matrix3d where
  "ZeroMatrix3 = ((0, 0, 0), (0, 0, 0), (0, 0, 0))"

fun vadd :: "Vector3d \<Rightarrow> Vector3d \<Rightarrow> Vector3d" where
  "vadd (a0, a1, a2) (b0, b1, b2) = (a0 + b0, a1 + b1, a2 + b2)"

fun vsub :: "Vector3d \<Rightarrow> Vector3d \<Rightarrow> Vector3d" where
  "vsub (a0, a1, a2) (b0, b1, b2) = (a0 - b0, a1 - b1, a2 - b2)"

fun vscale :: "Vector3d \<Rightarrow> real \<Rightarrow> Vector3d" where
  "vscale (a0, a1, a2) k = (a0 * k, a1 * k, a2 * k)"

fun vdiv :: "Vector3d \<Rightarrow> real \<Rightarrow> Vector3d" where
  "vdiv (a0, a1, a2) k = (a0 / k, a1 / k, a2 / k)"

fun squaredNorm :: "Vector3d \<Rightarrow> real" where
  "squaredNorm (a0, a1, a2) = a0 * a0 + a1 * a1 + a2 * a2"

definition norm3 :: "Vector3d \<Rightarrow> real" where
  "norm3 v = sqrt (squaredNorm v)"

text \<open>
  \<^verbatim>\<open>v.normalize()\<close>: Eigen divides by the norm when the squared norm is positive and
  leaves the zero vector as it is.
\<close>

definition normalize :: "Vector3d \<Rightarrow> Vector3d" where
  "normalize v = (let z = squaredNorm v in if z > 0 then vdiv v (sqrt z) else v)"

fun transpose3 :: "Matrix3d \<Rightarrow> Matrix3d" where
  "transpose3 ((a00, a01, a02), (a10, a11, a12), (a20, a21, a22)) =
     ((a00, a10, a20), (a01, a11, a21), (a02, a12, a22))"

fun dot3 :: "Vector3d \<Rightarrow> Vector3d \<Rightarrow> real" where
  "dot3 (a0, a1, a2) (b0, b1, b2) = a0 * b0 + a1 * b1 + a2 * b2"

fun mvmul :: "Matrix3d \<Rightarrow> Vector3d \<Rightarrow> Vector3d" where
  "mvmul (r0, r1, r2) v = (dot3 r0 v, dot3 r1 v, dot3 r2 v)"

definition mmul :: "Matrix3d \<Rightarrow> Matrix3d \<Rightarrow> Matrix3d" where
  "mmul a b =
     (case (a, transpose3 b) of
        ((r0, r1, r2), (c0, c1, c2)) \<Rightarrow>
          ((dot3 r0 c0, dot3 r0 c1, dot3 r0 c2),
           (dot3 r1 c0, dot3 r1 c1, dot3 r1 c2),
           (dot3 r2 c0, dot3 r2 c1, dot3 r2 c2)))"

fun msub :: "Matrix3d \<Rightarrow> Matrix3d \<Rightarrow> Matrix3d" where
  "msub (a0, a1, a2) (b0, b1, b2) = (vsub a0 b0, vsub a1 b1, vsub a2 b2)"

fun madd :: "Matrix3d \<Rightarrow> Matrix3d \<Rightarrow> Matrix3d" where
  "madd (a0, a1, a2) (b0, b1, b2) = (vadd a0 b0, vadd a1 b1, vadd a2 b2)"

fun determinant :: "Matrix3d \<Rightarrow> real" where
  "determinant ((a00, a01, a02), (a10, a11, a12), (a20, a21, a22)) =
     a00 * (a11 * a22 - a12 * a21) - a01 * (a10 * a22 - a12 * a20)
       + a02 * (a10 * a21 - a11 * a20)"

text \<open>The outer product of two rows: the term one delta adds to the cross-covariance.\<close>

fun outer :: "Vector3d \<Rightarrow> Vector3d \<Rightarrow> Matrix3d" where
  "outer (a0, a1, a2) b = (vscale b a0, vscale b a1, vscale b a2)"

text \<open>
  \<^verbatim>\<open>A.transpose() * B\<close> for two matrices of \<open>n\<close> rows and three columns, each
  the list of its rows; for \<open>n = 0\<close> Eigen's product is the 3x3 zero matrix.
\<close>

definition transpose_times :: "Vector3d list \<Rightarrow> Vector3d list \<Rightarrow> Matrix3d" where
  "transpose_times A B = foldl madd ZeroMatrix3 (map2 outer A B)"

subsection \<open>Pose, Sample, DSample\<close>

text \<open>\<^verbatim>\<open>vr::HmdMatrix34_t\<close>: \<^verbatim>\<open>float m[3][4]\<close>, three rows of four entries.\<close>

type_synonym HmdMatrix34_t =
  "(real \<times> real \<times> real \<times> real) \<times> (real \<times> real \<times> real \<times> real) \<times> (real \<times> real \<times> real \<times> real)"

record Pose =
  rot :: Matrix3d
  trans :: Vector3d

fun Pose_of_matrix :: "HmdMatrix34_t \<Rightarrow> Pose" where
  "Pose_of_matrix ((m00, m01, m02, m03), (m10, m11, m12, m13), (m20, m21, m22, m23)) =
     \<lparr>rot = ((m00, m01, m02), (m10, m11, m12), (m20, m21, m22)),
      trans = (m03, m13, m23)\<rparr>"

text \<open>
  \<^verbatim>\<open>Pose()\<close> leaves both members uninitialised. The model puts zeros there; no path of
  the source reads the poses of a default-constructed \<^verbatim>\<open>Sample\<close>.
\<close>

definition Pose_default :: Pose where
  "Pose_default = \<lparr>rot = ZeroMatrix3, trans = Zero3\<rparr>"

record Sample =
  ref :: Pose
  target :: Pose
  valid :: bool

definition Sample_default :: Sample where
  "Sample_default = \<lparr>Sample.ref = Pose_default, Sample.target = Pose_default, Sample.valid = False\<rparr>"

definition Sample_of :: "Pose \<Rightarrow> Pose \<Rightarrow> Sample" where
  "Sample_of r t = \<lparr>Sample.ref = r, Sample.target = t, Sample.valid = True\<rparr>"

record DSample =
  valid :: bool
  ref :: Vector3d
  target :: Vector3d

subsection \<open>Delta rotations\<close>

fun AxisFromRotationMatrix3 :: "Matrix3d \<Rightarrow> Vector3d" where
  "AxisFromRotationMatrix3 ((r00, r01, r02), (r10, r11, r12), (r20, r21, r22)) =
     (r21 - r12, r02 - r20, r10 - r01)"

text \<open>\<^verbatim>\<open>acos\<close> returns a NaN outside [-1, 1]: \<open>None\<close>.\<close>

fun AngleFromRotationMatrix3 :: "Matrix3d \<Rightarrow> real option" where
  "AngleFromRotationMatrix3 ((r00, r01, r02), (r10, r11, r12), (r20, r21, r22)) =
     (let c = (r00 + r11 + r22 - 1) / 2
      in if -1 \<le> c \<and> c \<le> 1 then Some (arccos c) else None)"

text \<open>\<^verbatim>\<open>a > k\<close> for a double that may be a NaN.\<close>

fun exceeds :: "real option \<Rightarrow> real \<Rightarrow> bool" where
  "exceeds None k = False"
| "exceeds (Some a) k = (a > k)"

text \<open>
  \<open>dref\<close> and \<open>dtarget\<close> (lines 99 and 100) are the rotations of the two devices
  between the two samples: the orientation at the first times the transposed orientation
  at the second.
\<close>

definition DeltaRotationSamples :: "Sample \<Rightarrow> Sample \<Rightarrow> DSample" where
  "DeltaRotationSamples s1 s2 =
     (let dref = mmul (rot (Sample.ref s1)) (transpose3 (rot (Sample.ref s2)));
          dtarget = mmul (rot (Sample.target s1)) (transpose3 (rot (Sample.target s2)));
          ds_ref = AxisFromRotationMatrix3 dref;
          ds_target = AxisFromRotationMatrix3 dtarget;
          refA = AngleFromRotationMatrix3 dref;
          targetA = AngleFromRotationMatrix3 dtarget
      in \<lparr>DSample.valid =
            (exceeds refA 0.4 \<and> exceeds targetA 0.4 \<and> norm3 ds_ref > 0.01 \<and> norm3 ds_target > 0.01),
          DSample.ref = normalize ds_ref,
          DSample.target = normalize ds_target\<rparr>)"

subsection \<open>What Calibration.cpp takes from outside\<close>

text \<open>\<^verbatim>\<open>enum class CalibrationState\<close> (Calibration.h); \<open>NoneState\<close> is \<^verbatim>\<open>CalibrationState::None\<close>.\<close>

datatype CalibrationState = NoneState | Begin | Rotation | Translation | Editing

text \<open>\<^verbatim>\<open>vr::TrackedDevicePose_t\<close>, the two members the source reads.\<close>

record TrackedDevicePose_t =
  mDeviceToAbsoluteTracking :: HmdMatrix34_t
  bPoseIsValid :: bool

text \<open>
  \<^verbatim>\<open>struct CalibrationContext\<close> (Calibration.h), the members Calibration.cpp uses.
  \<open>devicePoses\<close> is the array \<^verbatim>\<open>devicePoses[vr::k_unMaxTrackedDeviceCount]\<close>.
\<close>

record CalibrationContext =
  state :: CalibrationState
  referenceID :: int
  targetID :: int
  calibratedRotation :: Vector3d
  calibratedTranslation :: Vector3d
  targetTrackingSystem :: string
  validProfile :: bool
  timeLastTick :: real
  timeLastScan :: real
  wantedUpdateInterval :: real
  devicePoses :: "TrackedDevicePose_t list"
  messages :: string

text \<open>
  Modelled from the spec: \<^verbatim>\<open>CalibrationContext::Message\<close> is declared in Calibration.h,
  which is not among the sources. The spec calls the buffer "an accumulating
  human-readable progress/log buffer" and an "append-only text log, reset at calibration
  start": a message is appended to \<open>messages\<close>.
\<close>

definition Message :: "CalibrationContext \<Rightarrow> string \<Rightarrow> CalibrationContext" where
  "Message ctx msg = ctx\<lparr>messages := messages ctx @ msg\<rparr>"

text \<open>\<^verbatim>\<open>vr::HmdQuaternion_t\<close> and \<^verbatim>\<open>vr::HmdVector3d_t\<close>.\<close>

record HmdQuaternion_t =
  qw :: real
  qx :: real
  qy :: real
  qz :: real

type_synonym HmdVector3d_t = Vector3d

text \<open>The calls made on the global \<^verbatim>\<open>InputEmulator\<close>, in the order they are made.\<close>

datatype emulator_call =
    setWorldFromDriverRotationOffset int HmdQuaternion_t
  | setWorldFromDriverTranslationOffset int HmdVector3d_t
  | enableDeviceOffsets int bool

datatype ETrackedDeviceClass =
    TrackedDeviceClass_Invalid
  | TrackedDeviceClass_HMD
  | TrackedDeviceClass_Controller
  | TrackedDeviceClass_GenericTracker
  | TrackedDeviceClass_TrackingReference
  | TrackedDeviceClass_DisplayRedirect

text \<open>
  What \<^verbatim>\<open>vr::VRSystem()\<close> answers during one tick: the pose of every device index,
  its class, and its \<^verbatim>\<open>Prop_TrackingSystemName_String\<close> (\<open>None\<close> when the query
  reports an error).
\<close>

record IVRSystem =
  GetDeviceToAbsoluteTrackingPose :: "nat \<Rightarrow> TrackedDevicePose_t"
  GetTrackedDeviceClass :: "nat \<Rightarrow> ETrackedDeviceClass"
  GetTrackingSystemName :: "nat \<Rightarrow> string option"

text \<open>\<^verbatim>\<open>vr::k_unMaxTrackedDeviceCount\<close> (openvr.h).\<close>

definition k_unMaxTrackedDeviceCount :: nat where
  "k_unMaxTrackedDeviceCount = 64"

text \<open>
  The library functions that the calibrators call:
  \<^item> \<open>bdcsvd\<close>: \<^verbatim>\<open>BDCSVD::compute\<close> with thin U and V, giving \<^verbatim>\<open>(matrixU(), matrixV())\<close>;
    its argument is \<open>None\<close> for a matrix with a coefficient that is not finite.
    Eigen orders the singular values decreasingly, so the third columns of U and V
    belong to the smallest one;
  \<^item> \<open>eulerAngles\<close>: \<^verbatim>\<open>Matrix3d::eulerAngles(a0, a1, a2)\<close>;
  \<^item> \<open>bdcSvd_solve\<close>: \<^verbatim>\<open>coefficients.bdcSvd(...).solve(constants)\<close>, the
    least-squares solution, from the rows of the coefficient matrix and the constants;
  \<^item> \<open>printf_2f\<close>: what \<^verbatim>\<open>%.2f\<close> prints for a double.
\<close>

record externals =
  bdcsvd :: "Matrix3d option \<Rightarrow> Matrix3d \<times> Matrix3d"
  eulerAngles :: "Matrix3d \<Rightarrow> nat \<Rightarrow> nat \<Rightarrow> nat \<Rightarrow> Vector3d"
  bdcSvd_solve :: "Vector3d list \<Rightarrow> real list \<Rightarrow> Vector3d"
  printf_2f :: "real \<Rightarrow> string"

subsection \<open>snprintf\<close>

definition digit :: "nat \<Rightarrow> char" where
  "digit n = ''0123456789'' ! (n mod 10)"

fun printf_zd :: "nat \<Rightarrow> string" where
  "printf_zd n = (if n < 10 then [digit n] else printf_zd (n div 10) @ [digit n])"

definition printf_d :: "int \<Rightarrow> string" where
  "printf_d i = (if i < 0 then CHR ''-'' # printf_zd (nat (- i)) else printf_zd (nat i))"

text \<open>\<^verbatim>\<open>snprintf(buf, sizeof buf, ...)\<close> with \<^verbatim>\<open>char buf[256]\<close> keeps at most 255 characters.\<close>

definition snprintf_buf :: "string \<Rightarrow> string" where
  "snprintf_buf s = take 255 s"

subsection \<open>The rotation calibrator\<close>

text \<open>The two nested loops over \<open>i\<close> and \<open>j < i\<close>, keeping the valid deltas.\<close>

definition CalibrateRotation_deltas :: "Sample list \<Rightarrow> DSample list" where
  "CalibrateRotation_deltas samples =
     filter DSample.valid
       (concat (map (\<lambda>i. map (\<lambda>j. DeltaRotationSamples (samples ! i) (samples ! j)) [0..<i])
          [0..<length samples]))"

definition vsum :: "Vector3d list \<Rightarrow> Vector3d" where
  "vsum vs = foldl vadd Zero3 vs"

text \<open>
  \<^verbatim>\<open>centroid /= (double) deltas.size()\<close>. With no delta the accumulator is the zero vector
  and every component is 0.0 / 0.0, a NaN; in general a division by 0.0 is not finite.
\<close>

definition div_by_count :: "Vector3d \<Rightarrow> nat \<Rightarrow> Vector3d option" where
  "div_by_count acc n = (if n = 0 then None else Some (vdiv acc (real n)))"

definition refCentroid :: "DSample list \<Rightarrow> Vector3d option" where
  "refCentroid deltas = div_by_count (vsum (map DSample.ref deltas)) (length deltas)"

definition targetCentroid :: "DSample list \<Rightarrow> Vector3d option" where
  "targetCentroid deltas = div_by_count (vsum (map DSample.target deltas)) (length deltas)"

text \<open>
  \<^verbatim>\<open>points.row(i) -= centroid\<close> for every row: a row from which a centroid that is not
  finite is subtracted is not finite either.
\<close>

definition subtract_centroid :: "Vector3d list \<Rightarrow> Vector3d option \<Rightarrow> Vector3d option list" where
  "subtract_centroid rows c = map (\<lambda>r. map_option (vsub r) c) rows"

text \<open>
  Lines 152 to 158, from the two centroids on: the centring loops and
  \<^verbatim>\<open>refPoints.transpose() * targetPoints\<close>; \<open>None\<close> when a row is not finite.
\<close>

definition cross_covariance_from ::
  "DSample list \<Rightarrow> Vector3d option \<Rightarrow> Vector3d option \<Rightarrow> Matrix3d option" where
  "cross_covariance_from deltas refC targetC =
     (let refPoints = subtract_centroid (map DSample.ref deltas) refC;
          targetPoints = subtract_centroid (map DSample.target deltas) targetC
      in case (those refPoints, those targetPoints) of
           (Some rp, Some tp) \<Rightarrow> Some (transpose_times rp tp)
         | _ \<Rightarrow> None)"

text \<open>Lines 137 to 158: the cross-covariance of the deltas, with their own centroids.\<close>

definition crossCV :: "DSample list \<Rightarrow> Matrix3d option" where
  "crossCV deltas = cross_covariance_from deltas (refCentroid deltas) (targetCentroid deltas)"

text \<open>\<^verbatim>\<open>i(2,2) = -1\<close> on the identity.\<close>

definition Identity3_flipped :: Matrix3d where
  "Identity3_flipped = ((1, 0, 0), (0, 1, 0), (0, 0, -1))"

text \<open>Lines 160 to 172: from the cross-covariance to the Euler angles in degrees.\<close>

definition Kabsch_euler :: "externals \<Rightarrow> Matrix3d option \<Rightarrow> Vector3d" where
  "Kabsch_euler E cv =
     (case bdcsvd E cv of
        (U, V) \<Rightarrow>
          (let i = (if determinant (mmul U (transpose3 V)) < 0 then Identity3_flipped else Identity3);
               rot = mmul (mmul V i) (transpose3 U);
               rot' = transpose3 rot
           in vdiv (vscale (eulerAngles E rot' 2 1 0) 180) pi))"

fun euler_message :: "externals \<Rightarrow> Vector3d \<Rightarrow> string" where
  "euler_message E (e0, e1, e2) =
     snprintf_buf (''Calibrated rotation: yaw='' @ printf_2f E e1 @ '' pitch='' @ printf_2f E e2
        @ '' roll='' @ printf_2f E e0 @ ''\<newline>'')"

definition CalibrateRotation ::
  "externals \<Rightarrow> Sample list \<Rightarrow> CalibrationContext \<Rightarrow> Vector3d \<times> CalibrationContext" where
  "CalibrateRotation E samples ctx =
     (let deltas = CalibrateRotation_deltas samples;
          ctx1 = Message ctx
            (snprintf_buf (''Got '' @ printf_zd (length samples) @ '' samples with ''
               @ printf_zd (length deltas) @ '' delta samples\<newline>''));
          euler = Kabsch_euler E (crossCV deltas)
      in (euler, Message ctx1 (euler_message E euler)))"

subsection \<open>The translation calibrator\<close>

text \<open>The two blocks that the pair \<open>(i, j)\<close> pushes: the constants and the coefficients.\<close>

definition reference_block :: "Sample list \<Rightarrow> nat \<Rightarrow> nat \<Rightarrow> Vector3d \<times> Matrix3d" where
  "reference_block samples i j =
     (let QAi = transpose3 (rot (Sample.ref (samples ! i)));
          QAj = transpose3 (rot (Sample.ref (samples ! j)));
          dQA = msub QAj QAi;
          CA = vsub
            (mvmul QAj (vsub (trans (Sample.ref (samples ! j))) (trans (Sample.target (samples ! j)))))
            (mvmul QAi (vsub (trans (Sample.ref (samples ! i))) (trans (Sample.target (samples ! i)))))
      in (CA, dQA))"

definition target_block :: "Sample list \<Rightarrow> nat \<Rightarrow> nat \<Rightarrow> Vector3d \<times> Matrix3d" where
  "target_block samples i j =
     (let QBi = transpose3 (rot (Sample.target (samples ! i)));
          QBj = transpose3 (rot (Sample.target (samples ! j)));
          dQB = msub QBj QBi;
          CB = vsub
            (mvmul QBj (vsub (trans (Sample.ref (samples ! j))) (trans (Sample.target (samples ! j)))))
            (mvmul QBi (vsub (trans (Sample.ref (samples ! i))) (trans (Sample.target (samples ! i)))))
      in (CB, dQB))"

text \<open>The pairs \<open>(i, j)\<close> with \<open>j < i < n\<close>, in the order the two loops visit them.\<close>

definition index_pairs :: "nat \<Rightarrow> (nat \<times> nat) list" where
  "index_pairs n = concat (map (\<lambda>i. map (\<lambda>j. (i, j)) [0..<i]) [0..<n])"

definition CalibrateTranslation_deltas :: "Sample list \<Rightarrow> (Vector3d \<times> Matrix3d) list" where
  "CalibrateTranslation_deltas samples =
     concat (map (\<lambda>(i, j). [reference_block samples i j, target_block samples i j])
       (index_pairs (length samples)))"

text \<open>Rows \<open>3 i\<close>, \<open>3 i + 1\<close>, \<open>3 i + 2\<close> of the system come from delta \<open>i\<close>.\<close>

fun constants_of :: "Vector3d \<times> Matrix3d \<Rightarrow> real list" where
  "constants_of ((c0, c1, c2), m) = [c0, c1, c2]"

fun coefficients_of :: "Vector3d \<times> Matrix3d \<Rightarrow> Vector3d list" where
  "coefficients_of (c, (r0, r1, r2)) = [r0, r1, r2]"

definition constants :: "Sample list \<Rightarrow> real list" where
  "constants samples = concat (map constants_of (CalibrateTranslation_deltas samples))"

definition coefficients :: "Sample list \<Rightarrow> Vector3d list" where
  "coefficients samples = concat (map coefficients_of (CalibrateTranslation_deltas samples))"

fun translation_message :: "externals \<Rightarrow> Vector3d \<Rightarrow> string" where
  "translation_message E (t0, t1, t2) =
     snprintf_buf (''Calibrated translation x='' @ printf_2f E t0 @ '' y='' @ printf_2f E t1
        @ '' z='' @ printf_2f E t2 @ ''\<newline>'')"

definition CalibrateTranslation ::
  "externals \<Rightarrow> Sample list \<Rightarrow> CalibrationContext \<Rightarrow> Vector3d \<times> CalibrationContext" where
  "CalibrateTranslation E samples ctx =
     (let trans = bdcSvd_solve E (coefficients samples) (constants samples);
          transcm = vscale trans 100
      in (transcm, Message ctx (translation_message E transcm)))"

subsection \<open>Offsets handed to the input emulator\<close>

text \<open>
  An \<^verbatim>\<open>Eigen::Quaterniond\<close> in the order of \<^verbatim>\<open>coeffs()\<close>: x, y, z, w. The quaternion of
  an \<^verbatim>\<open>AngleAxisd\<close> about a unit axis has \<open>w = cos (angle / 2)\<close> and the axis scaled by
  \<open>sin (angle / 2)\<close>; the product of two \<^verbatim>\<open>AngleAxisd\<close> is the product of their
  quaternions.
\<close>

type_synonym Quaterniond = "real \<times> real \<times> real \<times> real"

definition AngleAxis_UnitX :: "real \<Rightarrow> Quaterniond" where
  "AngleAxis_UnitX a = (sin (a / 2), 0, 0, cos (a / 2))"

definition AngleAxis_UnitY :: "real \<Rightarrow> Quaterniond" where
  "AngleAxis_UnitY a = (0, sin (a / 2), 0, cos (a / 2))"

definition AngleAxis_UnitZ :: "real \<Rightarrow> Quaterniond" where
  "AngleAxis_UnitZ a = (0, 0, sin (a / 2), cos (a / 2))"

fun qmul :: "Quaterniond \<Rightarrow> Quaterniond \<Rightarrow> Quaterniond" where
  "qmul (ax, ay, az, aw) (bx, by, bz, bw) =
     (aw * bx + ax * bw + ay * bz - az * by,
      aw * by + ay * bw + az * bx - ax * bz,
      aw * bz + az * bw + ax * by - ay * bx,
      aw * bw - ax * bx - ay * by - az * bz)"

definition VRRotationQuat :: "Vector3d \<Rightarrow> HmdQuaternion_t" where
  "VRRotationQuat eulerdeg =
     (case vdiv (vscale eulerdeg pi) 180 of
        (e0, e1, e2) \<Rightarrow>
          (case qmul (qmul (AngleAxis_UnitZ e0) (AngleAxis_UnitY e1)) (AngleAxis_UnitX e2) of
             (c0, c1, c2, c3) \<Rightarrow> \<lparr>qw = c3, qx = c0, qy = c1, qz = c2\<rparr>))"

definition VRTranslationVec :: "Vector3d \<Rightarrow> HmdVector3d_t" where
  "VRTranslationVec transcm = vscale transcm 0.01"

subsection \<open>The state of the program\<close>

text \<open>
  \<open>CalCtx\<close> is the global context, \<open>samples\<close> the static vector of
  \<^verbatim>\<open>CalibrationTick\<close>, \<open>InputEmulator\<close> the calls made so far, \<open>Profiles\<close> the
  profiles written to storage so far.
\<close>

record world =
  CalCtx :: CalibrationContext
  samples :: "Sample list"
  InputEmulator :: "emulator_call list"
  Profiles :: "CalibrationContext list"

text \<open>
  Modelled from the spec: \<^verbatim>\<open>SaveProfile\<close> is declared in Configuration.h, which is not
  among the sources. The spec has the Translation state persist "the full profile
  (rotation + translation + associated tracking-system identifiers) to external
  storage", and has the context "mutated exclusively by the state machine": the context
  handed over is appended to the stored profiles and is itself left as it is.
\<close>

definition SaveProfile :: "world \<Rightarrow> world" where
  "SaveProfile w = w\<lparr>Profiles := Profiles w @ [CalCtx w]\<rparr>"

text \<open>
  Reading \<^verbatim>\<open>ctx.devicePoses[id]\<close> outside the array is undefined behaviour in C++; the
  model stops with a fault.
\<close>

datatype fault = ArrayIndexOutOfBounds

definition devicePose :: "CalibrationContext \<Rightarrow> int \<Rightarrow> fault + TrackedDevicePose_t" where
  "devicePose ctx i =
     (if 0 \<le> i \<and> i < int (length (devicePoses ctx)) then Inr (devicePoses ctx ! nat i)
      else Inl ArrayIndexOutOfBounds)"

definition CollectSample :: "CalibrationContext \<Rightarrow> fault + (Sample \<times> CalibrationContext)" where
  "CollectSample ctx =
     (case devicePose ctx (referenceID ctx) of
        Inl f \<Rightarrow> Inl f
      | Inr referencePose \<Rightarrow>
          (case devicePose ctx (targetID ctx) of
             Inl f \<Rightarrow> Inl f
           | Inr targetPose \<Rightarrow>
               (let c1 = (if \<not> bPoseIsValid referencePose
                          then Message ctx ''Reference device is not tracking\<newline>'' else ctx);
                    c2 = (if \<not> bPoseIsValid targetPose
                          then Message c1 ''Target device is not tracking\<newline>'' else c1);
                    ok = (bPoseIsValid referencePose \<and> bPoseIsValid targetPose)
                in if \<not> ok
                   then Inr (Sample_default,
                          (Message c2 ''Aborting calibration!\<newline>'')\<lparr>state := NoneState\<rparr>)
                   else Inr (Sample_of (Pose_of_matrix (mDeviceToAbsoluteTracking referencePose))
                               (Pose_of_matrix (mDeviceToAbsoluteTracking targetPose)), c2))))"

text \<open>The body of the loop of \<^verbatim>\<open>ScanAndApplyProfile\<close> for one device index.\<close>

definition ScanAndApplyProfile_device ::
  "IVRSystem \<Rightarrow> CalibrationContext \<Rightarrow> emulator_call list \<Rightarrow> nat \<Rightarrow> emulator_call list" where
  "ScanAndApplyProfile_device sys ctx calls dev =
     (let deviceClass = GetTrackedDeviceClass sys dev
      in if deviceClass = TrackedDeviceClass_Invalid then calls
         else (case GetTrackingSystemName sys dev of
                 None \<Rightarrow> calls
               | Some trackingSystem \<Rightarrow>
                   if trackingSystem \<noteq> targetTrackingSystem ctx then calls
                   else if deviceClass = TrackedDeviceClass_TrackingReference
                           \<or> deviceClass = TrackedDeviceClass_HMD then calls
                   else calls @
                     [setWorldFromDriverRotationOffset (int dev) (VRRotationQuat (calibratedRotation ctx)),
                      setWorldFromDriverTranslationOffset (int dev)
                        (VRTranslationVec (calibratedTranslation ctx)),
                      enableDeviceOffsets (int dev) True]))"

definition ScanAndApplyProfile :: "IVRSystem \<Rightarrow> world \<Rightarrow> world" where
  "ScanAndApplyProfile sys w =
     w\<lparr>InputEmulator :=
         foldl (ScanAndApplyProfile_device sys (CalCtx w)) (InputEmulator w)
           [0..<k_unMaxTrackedDeviceCount]\<rparr>"

definition ResetAndDisableOffsets :: "int \<Rightarrow> world \<Rightarrow> world" where
  "ResetAndDisableOffsets dev w =
     w\<lparr>InputEmulator := InputEmulator w @
         [setWorldFromDriverRotationOffset dev \<lparr>qw = 1, qx = 0, qy = 0, qz = 0\<rparr>,
          setWorldFromDriverTranslationOffset dev (0, 0, 0),
          enableDeviceOffsets dev False]\<rparr>"

definition StartCalibration :: "world \<Rightarrow> world" where
  "StartCalibration w =
     w\<lparr>CalCtx := (CalCtx w)\<lparr>state := Begin, wantedUpdateInterval := 0, messages := []\<rparr>\<rparr>"

subsection \<open>CalibrationTick\<close>

text \<open>The context as a tick that passes both guards stamps it (lines 358 and 359).\<close>

definition stamped :: "IVRSystem \<Rightarrow> real \<Rightarrow> CalibrationContext \<Rightarrow> CalibrationContext" where
  "stamped sys time ctx =
     ctx\<lparr>timeLastTick := time,
         devicePoses := map (GetDeviceToAbsoluteTrackingPose sys) [0..<k_unMaxTrackedDeviceCount]\<rparr>"

text \<open>Lines 391 to 398: the check of the reference device, giving the context and \<open>ok\<close>.\<close>

definition Begin_reference :: "CalibrationContext \<Rightarrow> fault + (CalibrationContext \<times> bool)" where
  "Begin_reference ctx =
     (if referenceID ctx = - 1 then Inr (Message ctx ''Missing reference device\<newline>'', False)
      else (case devicePose ctx (referenceID ctx) of
              Inl f \<Rightarrow> Inl f
            | Inr p \<Rightarrow>
                if \<not> bPoseIsValid p
                then Inr (Message ctx ''Reference device is not tracking\<newline>'', False)
                else Inr (ctx, True)))"

text \<open>Lines 400 to 407: the check of the target device, from the \<open>ok\<close> so far.\<close>

definition Begin_target ::
  "CalibrationContext \<Rightarrow> bool \<Rightarrow> fault + (CalibrationContext \<times> bool)" where
  "Begin_target ctx ok =
     (if targetID ctx = - 1 then Inr (Message ctx ''Missing target device\<newline>'', False)
      else (case devicePose ctx (targetID ctx) of
              Inl f \<Rightarrow> Inl f
            | Inr p \<Rightarrow>
                if \<not> bPoseIsValid p
                then Inr (Message ctx ''Target device is not tracking\<newline>'', False)
                else Inr (ctx, ok)))"

text \<open>The branch \<^verbatim>\<open>ctx.state == CalibrationState::Begin\<close>, lines 387 to 424.\<close>

definition Tick_Begin :: "world \<Rightarrow> fault + world" where
  "Tick_Begin w =
     (case Begin_reference (CalCtx w) of
        Inl f \<Rightarrow> Inl f
      | Inr (c1, ok1) \<Rightarrow>
          (case Begin_target c1 ok1 of
             Inl f \<Rightarrow> Inl f
           | Inr (c2, ok) \<Rightarrow>
               if \<not> ok
               then Inr (w\<lparr>CalCtx := Message (c2\<lparr>state := NoneState\<rparr>) ''Aborting calibration!\<newline>''\<rparr>)
               else (let w1 = ResetAndDisableOffsets (targetID c2) (w\<lparr>CalCtx := c2\<rparr>);
                         c3 = (CalCtx w1)\<lparr>state := Rotation, wantedUpdateInterval := 0\<rparr>
                     in Inr (w1\<lparr>CalCtx := Message c3
                          (snprintf_buf (''Starting calibration, referenceID='' @ printf_d (referenceID c3)
                             @ '' targetID='' @ printf_d (targetID c3) @ ''\<newline>''))\<rparr>))))"

text \<open>\<^verbatim>\<open>const int totalSamples = 100\<close>.\<close>

definition totalSamples :: nat where
  "totalSamples = 100"

text \<open>Lines 426 to 464: the states that collect samples.\<close>

definition Tick_Sample :: "externals \<Rightarrow> world \<Rightarrow> fault + world" where
  "Tick_Sample E w =
     (case CollectSample (CalCtx w) of
        Inl f \<Rightarrow> Inl f
      | Inr (sample, c1) \<Rightarrow>
          if \<not> Sample.valid sample then Inr (w\<lparr>CalCtx := c1\<rparr>)
          else
            (let c2 = Message c1 ''.'';
                 samples' = samples w @ [sample]
             in if length samples' = totalSamples
                then
                  (let c3 = Message c2 ''\<newline>''
                   in if state c3 = Rotation
                      then
                        (case CalibrateRotation E samples' c3 of
                           (euler, c4) \<Rightarrow>
                             (let c5 = c4\<lparr>calibratedRotation := euler\<rparr>
                              in Inr (w\<lparr>CalCtx := c5\<lparr>state := Translation\<rparr>,
                                       samples := [],
                                       InputEmulator := InputEmulator w @
                                         [setWorldFromDriverRotationOffset (targetID c5)
                                            (VRRotationQuat (calibratedRotation c5)),
                                          enableDeviceOffsets (targetID c5) True]\<rparr>)))
                      else if state c3 = Translation
                      then
                        (case CalibrateTranslation E samples' c3 of
                           (transcm, c4) \<Rightarrow>
                             (let c5 = c4\<lparr>calibratedTranslation := transcm\<rparr>;
                                  w1 = SaveProfile
                                    (w\<lparr>CalCtx := c5,
                                       InputEmulator := InputEmulator w @
                                         [setWorldFromDriverTranslationOffset (targetID c5)
                                            (VRTranslationVec (calibratedTranslation c5))]\<rparr>);
                                  c6 = Message (CalCtx w1) ''Finished calibration, profile saved\<newline>''
                              in Inr (w1\<lparr>CalCtx := c6\<lparr>state := NoneState\<rparr>, samples := []\<rparr>)))
                      else Inr (w\<lparr>CalCtx := c3, samples := []\<rparr>))
                else Inr (w\<lparr>CalCtx := c2, samples := samples'\<rparr>)))"

text \<open>The tick after the two guards of lines 351 to 359, by the state of the context.\<close>

definition Tick_State :: "externals \<Rightarrow> IVRSystem \<Rightarrow> real \<Rightarrow> world \<Rightarrow> fault + world" where
  "Tick_State E sys time w =
     (let ctx = CalCtx w
      in if state ctx = NoneState
         then
           (let w1 = w\<lparr>CalCtx := ctx\<lparr>wantedUpdateInterval := 1\<rparr>\<rparr>
            in if \<not> validProfile ctx then Inr w1
               else if time - timeLastScan ctx \<ge> 2.5
               then (let w2 = ScanAndApplyProfile sys w1
                     in Inr (w2\<lparr>CalCtx := (CalCtx w2)\<lparr>timeLastScan := time\<rparr>\<rparr>))
               else Inr w1)
         else if state ctx = Editing
         then
           (let w1 = w\<lparr>CalCtx := ctx\<lparr>wantedUpdateInterval := 0\<rparr>\<rparr>
            in if \<not> validProfile ctx then Inr w1
               else Inr (ScanAndApplyProfile sys w1))
         else if state ctx = Begin then Tick_Begin w
         else Tick_Sample E w)"

text \<open>
  \<^verbatim>\<open>CalibrationTick(time)\<close>. The second argument is what \<^verbatim>\<open>vr::VRSystem()\<close> returns
  during the call: \<open>None\<close> for the null pointer.
\<close>

definition CalibrationTick ::
  "externals \<Rightarrow> IVRSystem option \<Rightarrow> real \<Rightarrow> world \<Rightarrow> fault + world" where
  "CalibrationTick E vr time w =
     (case vr of
        None \<Rightarrow> Inr w
      | Some sys \<Rightarrow>
          if time - timeLastTick (CalCtx w) < 0.05 then Inr w
          else Tick_State E sys time (w\<lparr>CalCtx := stamped sys time (CalCtx w)\<rparr>))"

subsection \<open>Device identifiers that can be read\<close>

definition in_array :: "int \<Rightarrow> bool" where
  "in_array i = (0 \<le> i \<and> i < int k_unMaxTrackedDeviceCount)"

text \<open>
  The identifiers a tick reads \<^verbatim>\<open>devicePoses\<close> at, by state: none when idle or editing;
  in Begin each identifier unless it is -1; both when sampling.
\<close>

definition ids_readable :: "CalibrationContext \<Rightarrow> bool" where
  "ids_readable ctx =
     (case state ctx of
        NoneState \<Rightarrow> True
      | Editing \<Rightarrow> True
      | Begin \<Rightarrow> (referenceID ctx = - 1 \<or> in_array (referenceID ctx))
                 \<and> (targetID ctx = - 1 \<or> in_array (targetID ctx))
      | Rotation \<Rightarrow> in_array (referenceID ctx) \<and> in_array (targetID ctx)
      | Translation \<Rightarrow> in_array (referenceID ctx) \<and> in_array (targetID ctx))"

text \<open>Whether the runtime reports the pose of a device as valid.\<close>

definition is_tracking :: "IVRSystem \<Rightarrow> int \<Rightarrow> bool" where
  "is_tracking sys i = bPoseIsValid (GetDeviceToAbsoluteTrackingPose sys (nat i))"

text \<open>The sample that \<^verbatim>\<open>CollectSample\<close> builds from the poses the runtime reports.\<close>

definition sample_of_poses :: "IVRSystem \<Rightarrow> CalibrationContext \<Rightarrow> Sample" where
  "sample_of_poses sys ctx =
     Sample_of
       (Pose_of_matrix (mDeviceToAbsoluteTracking
          (GetDeviceToAbsoluteTrackingPose sys (nat (referenceID ctx)))))
       (Pose_of_matrix (mDeviceToAbsoluteTracking
          (GetDeviceToAbsoluteTrackingPose sys (nat (targetID ctx)))))"

subsection \<open>The states the program can be in\<close>

text \<open>
  The static vector starts empty and only \<^verbatim>\<open>CalibrationTick\<close> can touch it. The context
  is a global: the host (the user interface, the profile loader) writes its members
  between ticks, so any context may replace the current one. \<^verbatim>\<open>StartCalibration\<close> and
  a tick that returns are the other two steps.
\<close>

inductive reachable :: "externals \<Rightarrow> world \<Rightarrow> bool" for E :: externals where
  reachable_init: "reachable E \<lparr>CalCtx = c, samples = [], InputEmulator = [], Profiles = []\<rparr>"
| reachable_host: "reachable E w \<Longrightarrow> reachable E (w\<lparr>CalCtx := c\<rparr>)"
| reachable_start: "reachable E w \<Longrightarrow> reachable E (StartCalibration w)"
| reachable_tick:
    "reachable E w \<Longrightarrow> CalibrationTick E vr time w = Inr w' \<Longrightarrow> reachable E w'"

subsection \<open>The rotation step in the words of the specification\<close>

text \<open>
  Section 4.3, steps 4 and 5: "if the product of the left and right singular-vector bases
  has negative determinant, flip the sign of the smallest-singular-value axis"; "compose
  the corrected rotation, transpose [...], and report it as Euler angles (degrees, [...]
  axis order Z,Y,X)". The axis of the smallest singular value is the third column of V.
\<close>

fun negate_third_column :: "Matrix3d \<Rightarrow> Matrix3d" where
  "negate_third_column ((a00, a01, a02), (a10, a11, a12), (a20, a21, a22)) =
     ((a00, a01, - a02), (a10, a11, - a12), (a20, a21, - a22))"

definition degrees :: "Vector3d \<Rightarrow> Vector3d" where
  "degrees v = vscale v (180 / pi)"

definition spec_rotation_step :: "externals \<Rightarrow> Matrix3d option \<Rightarrow> Vector3d" where
  "spec_rotation_step E cv =
     (case bdcsvd E cv of
        (U, V) \<Rightarrow>
          (let V' = (if determinant (mmul U (transpose3 V)) < 0 then negate_third_column V else V);
               composed = mmul V' (transpose3 U)
           in degrees (eulerAngles E (transpose3 composed) 2 1 0)))"

text \<open>
  Section 4.3, steps 2 and 3: "center the reference-axis vectors and the target-axis
  vectors of all M deltas on their respective centroids", then "form the 3x3
  cross-covariance matrix between centered reference axes and centered target axes
  ([...] accumulated as reference-transposed times target)".
\<close>

definition centred :: "Vector3d list \<Rightarrow> Vector3d list" where
  "centred vs = map (\<lambda>v. vsub v (vdiv (vsum vs) (real (length vs)))) vs"

definition spec_cross_covariance :: "DSample list \<Rightarrow> Matrix3d" where
  "spec_cross_covariance deltas =
     transpose_times (centred (map DSample.ref deltas)) (centred (map DSample.target deltas))"

text \<open>The rotation by the angle \<open>t\<close> (in radians) about the z axis.\<close>

definition RotationZ :: "real \<Rightarrow> Matrix3d" where
  "RotationZ t = ((cos t, - sin t, 0), (sin t, cos t, 0), (0, 0, 1))"

subsection \<open>Concrete inputs\<close>

text \<open>
  Stand-ins for the library functions, used only to evaluate the model at concrete
  inputs; every theorem below holds for all \<open>externals\<close>.
\<close>

definition E0 :: externals where
  "E0 = \<lparr>bdcsvd = (\<lambda>cv. (Identity3, Identity3)),
         eulerAngles = (\<lambda>m a0 a1 a2. Zero3),
         bdcSvd_solve = (\<lambda>A b. Zero3),
         printf_2f = (\<lambda>x. ''0.00'')\<rparr>"

text \<open>
  A device at the origin: unrotated, turned by a right angle about the z axis, and turned
  by two right angles about it.
\<close>

definition m_identity :: HmdMatrix34_t where
  "m_identity = ((1, 0, 0, 0), (0, 1, 0, 0), (0, 0, 1, 0))"

definition m_quarter_turn :: HmdMatrix34_t where
  "m_quarter_turn = ((0, - 1, 0, 0), (1, 0, 0, 0), (0, 0, 1, 0))"

definition m_half_turn :: HmdMatrix34_t where
  "m_half_turn = ((- 1, 0, 0, 0), (0, - 1, 0, 0), (0, 0, 1, 0))"

definition sample_half_turn :: Sample where
  "sample_half_turn = Sample_of (Pose_of_matrix m_half_turn) (Pose_of_matrix m_half_turn)"

definition sample_identity :: Sample where
  "sample_identity = Sample_of (Pose_of_matrix m_identity) (Pose_of_matrix m_identity)"

definition sample_quarter_turn :: Sample where
  "sample_quarter_turn = Sample_of (Pose_of_matrix m_quarter_turn) (Pose_of_matrix m_quarter_turn)"

definition tracked :: TrackedDevicePose_t where
  "tracked = \<lparr>mDeviceToAbsoluteTracking = m_identity, bPoseIsValid = True\<rparr>"

definition untracked :: TrackedDevicePose_t where
  "untracked = \<lparr>mDeviceToAbsoluteTracking = m_identity, bPoseIsValid = False\<rparr>"

text \<open>A runtime where every device tracks, and one where device 1 has lost tracking.\<close>

definition sys_tracking :: IVRSystem where
  "sys_tracking = \<lparr>GetDeviceToAbsoluteTrackingPose = (\<lambda>dev. tracked),
                   GetTrackedDeviceClass = (\<lambda>dev. TrackedDeviceClass_GenericTracker),
                   GetTrackingSystemName = (\<lambda>dev. Some ''lighthouse'')\<rparr>"

definition sys_lost :: IVRSystem where
  "sys_lost = \<lparr>GetDeviceToAbsoluteTrackingPose = (\<lambda>dev. if dev = 1 then untracked else tracked),
               GetTrackedDeviceClass = (\<lambda>dev. TrackedDeviceClass_GenericTracker),
               GetTrackingSystemName = (\<lambda>dev. Some ''lighthouse'')\<rparr>"

text \<open>The context at program start, with device 0 as reference and device 1 as target.\<close>

definition ctx_selected :: CalibrationContext where
  "ctx_selected =
     \<lparr>state = NoneState, referenceID = 0, targetID = 1,
      calibratedRotation = Zero3, calibratedTranslation = Zero3,
      targetTrackingSystem = ''lighthouse'', validProfile = False,
      timeLastTick = 0, timeLastScan = 0, wantedUpdateInterval = 1,
      devicePoses = replicate 64 untracked, messages = []\<rparr>"

text \<open>The same with no device selected: both identifiers are -1.\<close>

definition ctx_unselected :: CalibrationContext where
  "ctx_unselected = ctx_selected\<lparr>referenceID := - 1, targetID := - 1\<rparr>"

text \<open>A run in the Rotation state that has collected \<open>n\<close> samples.\<close>

definition world_rotating :: "nat \<Rightarrow> world" where
  "world_rotating n =
     \<lparr>CalCtx = ctx_selected\<lparr>state := Rotation\<rparr>,
      samples = replicate n sample_identity,
      InputEmulator = [], Profiles = []\<rparr>"

definition world_start :: world where
  "world_start = \<lparr>CalCtx = ctx_selected, samples = [], InputEmulator = [], Profiles = []\<rparr>"

definition world_unselected :: world where
  "world_unselected = \<lparr>CalCtx = ctx_unselected, samples = [], InputEmulator = [], Profiles = []\<rparr>"

section \<open>Delta rotations: validity and normalisation\<close>





subsection \<open>Two orientations about the same axis\<close>

text \<open>
  Between a turn by \<open>a\<close> and a turn by \<open>b\<close> about the z axis the device has turned
  by \<open>a - b\<close>: the product with the transpose is the relative rotation.
\<close>

lemma relative_RotationZ: "mmul (RotationZ a) (transpose3 (RotationZ b)) = RotationZ (a - b)"
  by (simp add: RotationZ_def mmul_def cos_diff sin_diff algebra_simps)

lemma Angle_RotationZ:
  assumes "\<bar>t\<bar> \<le> pi"
  shows "AngleFromRotationMatrix3 (RotationZ t) = Some \<bar>t\<bar>"
proof -
  have c: "-1 \<le> cos t" "cos t \<le> 1" by simp_all
  have "arccos (cos t) = \<bar>t\<bar>"
  proof (cases "0 \<le> t")
    case True
    with assms show ?thesis by (simp add: arccos_cos)
  next
    case False
    with assms show ?thesis by (simp add: arccos_cos2)
  qed
  with c show ?thesis by (simp add: RotationZ_def)
qed

lemma norm_Axis_RotationZ: "norm3 (AxisFromRotationMatrix3 (RotationZ t)) = 2 * \<bar>sin t\<bar>"
proof -
  have "sqrt ((2 * sin t) * (2 * sin t)) = \<bar>2 * sin t\<bar>"
    by (simp only: real_sqrt_abs2)
  then show ?thesis by (simp add: RotationZ_def norm3_def abs_mult)
qed

lemma DeltaRotationSamples_about_z:
  assumes "rot (Sample.ref s1) = RotationZ a1" and "rot (Sample.ref s2) = RotationZ a2"
    and "rot (Sample.target s1) = RotationZ b1" and "rot (Sample.target s2) = RotationZ b2"
    and "\<bar>a1 - a2\<bar> \<le> pi" and "\<bar>b1 - b2\<bar> \<le> pi"
  shows "DSample.valid (DeltaRotationSamples s1 s2) \<longleftrightarrow>
           \<bar>a1 - a2\<bar> > 0.4 \<and> \<bar>b1 - b2\<bar> > 0.4
           \<and> 2 * \<bar>sin (a1 - a2)\<bar> > 0.01 \<and> 2 * \<bar>sin (b1 - b2)\<bar> > 0.01"
  using assms(5,6)
  by (simp add: DeltaRotationSamples_def Let_def assms(1-4) relative_RotationZ
      Angle_RotationZ norm_Axis_RotationZ)

lemma RotationZ_values:
  "RotationZ 0 = ((1, 0, 0), (0, 1, 0), (0, 0, 1))"
  "RotationZ (pi / 2) = ((0, - 1, 0), (1, 0, 0), (0, 0, 1))"
  "RotationZ pi = ((- 1, 0, 0), (0, - 1, 0), (0, 0, 1))"
  by (simp_all add: RotationZ_def)

lemma sample_rotations:
  "rot (Sample.ref sample_identity) = RotationZ 0"
  "rot (Sample.target sample_identity) = RotationZ 0"
  "rot (Sample.ref sample_quarter_turn) = RotationZ (pi / 2)"
  "rot (Sample.target sample_quarter_turn) = RotationZ (pi / 2)"
  "rot (Sample.ref sample_half_turn) = RotationZ pi"
  "rot (Sample.target sample_half_turn) = RotationZ pi"
  by (simp_all add: RotationZ_values sample_identity_def sample_quarter_turn_def
      sample_half_turn_def Sample_of_def m_identity_def m_quarter_turn_def m_half_turn_def)

lemma quarter_pair_valid: "DSample.valid (DeltaRotationSamples sample_quarter_turn sample_identity)"
proof -
  have "\<bar>pi / 2 - 0\<bar> \<le> pi" by simp
  from DeltaRotationSamples_about_z [OF sample_rotations(3,1,4,2) this this]
  show ?thesis using pi_ge_two by simp
qed

lemma identity_pair_invalid: "\<not> DSample.valid (DeltaRotationSamples sample_identity sample_identity)"
proof -
  have "\<bar>0 - 0 :: real\<bar> \<le> pi" by simp
  from DeltaRotationSamples_about_z [OF sample_rotations(1,1,2,2) this this]
  show ?thesis by simp
qed

subsection \<open>The claim\<close>



section \<open>The tick-driven state machine\<close>

lemma devicePose_stamped:
  "devicePose (stamped sys t ctx) i =
     (if in_array i then Inr (GetDeviceToAbsoluteTrackingPose sys (nat i))
      else Inl ArrayIndexOutOfBounds)"
  by (auto simp: devicePose_def stamped_def in_array_def)

lemma stamped_fields [simp]:
  "state (stamped sys t ctx) = state ctx"
  "referenceID (stamped sys t ctx) = referenceID ctx"
  "targetID (stamped sys t ctx) = targetID ctx"
  "messages (stamped sys t ctx) = messages ctx"
  "timeLastTick (stamped sys t ctx) = t"
  "timeLastScan (stamped sys t ctx) = timeLastScan ctx"
  "validProfile (stamped sys t ctx) = validProfile ctx"
  "calibratedRotation (stamped sys t ctx) = calibratedRotation ctx"
  "calibratedTranslation (stamped sys t ctx) = calibratedTranslation ctx"
  by (simp_all add: stamped_def)

lemma Message_fields [simp]:
  "state (Message ctx m) = state ctx"
  "referenceID (Message ctx m) = referenceID ctx"
  "targetID (Message ctx m) = targetID ctx"
  "messages (Message ctx m) = messages ctx @ m"
  "timeLastTick (Message ctx m) = timeLastTick ctx"
  "devicePoses (Message ctx m) = devicePoses ctx"
  "calibratedRotation (Message ctx m) = calibratedRotation ctx"
  "calibratedTranslation (Message ctx m) = calibratedTranslation ctx"
  by (simp_all add: Message_def)

lemma devicePose_Message [simp]: "devicePose (Message c m) i = devicePose c i"
  by (simp add: devicePose_def)

lemma CalibrationTick_None: "CalibrationTick E None t w = Inr w"
  by (simp add: CalibrationTick_def)

lemma CalibrationTick_debounced:
  "t - timeLastTick (CalCtx w) < 0.05 \<Longrightarrow> CalibrationTick E vr t w = Inr w"
  by (simp add: CalibrationTick_def split: option.split)

lemma CalibrationTick_processed:
  "0.05 \<le> t - timeLastTick (CalCtx w) \<Longrightarrow>
   CalibrationTick E (Some sys) t w = Tick_State E sys t (w\<lparr>CalCtx := stamped sys t (CalCtx w)\<rparr>)"
  by (simp add: CalibrationTick_def)

lemma ScanAndApplyProfile_fields [simp]:
  "CalCtx (ScanAndApplyProfile sys w) = CalCtx w"
  "samples (ScanAndApplyProfile sys w) = samples w"
  "Profiles (ScanAndApplyProfile sys w) = Profiles w"
  by (simp_all add: ScanAndApplyProfile_def)

lemma CalibrateRotation_ctx:
  "CalibrateRotation E ss c = (e, c') \<Longrightarrow>
   state c' = state c \<and> referenceID c' = referenceID c \<and> targetID c' = targetID c
   \<and> timeLastTick c' = timeLastTick c \<and> devicePoses c' = devicePoses c"
  by (auto simp: CalibrateRotation_def Let_def)

lemma Tick_Sample_samples_valid:
  assumes "Tick_Sample E w = Inr w'" and "\<forall>s\<in>set (samples w). Sample.valid s"
  shows "\<forall>s\<in>set (samples w'). Sample.valid s"
  using assms
  by (auto simp: Tick_Sample_def Let_def SaveProfile_def split: sum.splits prod.splits if_splits)

lemma Tick_Begin_samples: "Tick_Begin w = Inr w' \<Longrightarrow> samples w' = samples w"
  by (auto simp: Tick_Begin_def Let_def ResetAndDisableOffsets_def split: sum.splits prod.splits if_splits)

lemma Tick_State_samples_valid:
  assumes "Tick_State E sys t w = Inr w'" and "\<forall>s\<in>set (samples w). Sample.valid s"
  shows "\<forall>s\<in>set (samples w'). Sample.valid s"
proof (cases "state (CalCtx w)")
  case NoneState
  with assms show ?thesis by (auto simp: Tick_State_def Let_def split: if_splits)
next
  case Editing
  with assms show ?thesis by (auto simp: Tick_State_def Let_def split: if_splits)
next
  case Begin
  with assms have "Tick_Begin w = Inr w'" by (simp add: Tick_State_def)
  with assms Tick_Begin_samples show ?thesis by simp
next
  case Rotation
  with assms have "Tick_Sample E w = Inr w'" by (simp add: Tick_State_def)
  with assms Tick_Sample_samples_valid show ?thesis by blast
next
  case Translation
  with assms have "Tick_Sample E w = Inr w'" by (simp add: Tick_State_def)
  with assms Tick_Sample_samples_valid show ?thesis by blast
qed

lemma CalibrationTick_samples_valid:
  assumes "CalibrationTick E vr t w = Inr w'" and "\<forall>s\<in>set (samples w). Sample.valid s"
  shows "\<forall>s\<in>set (samples w'). Sample.valid s"
proof (cases vr)
  case None
  with assms show ?thesis by (simp add: CalibrationTick_def)
next
  case (Some sys)
  show ?thesis
  proof (cases "t - timeLastTick (CalCtx w) < 0.05")
    case True
    with assms show ?thesis by (simp add: CalibrationTick_debounced)
  next
    case False
    with assms Some have "Tick_State E sys t (w\<lparr>CalCtx := stamped sys t (CalCtx w)\<rparr>) = Inr w'"
      by (simp add: CalibrationTick_def)
    then show ?thesis using assms(2) Tick_State_samples_valid [of E sys t "w\<lparr>CalCtx := stamped sys t (CalCtx w)\<rparr>" w']
      by simp
  qed
qed

text \<open>
  Claim C8. In every state the tick-driven machine can reach, every sample in the
  accumulator has its \<open>valid\<close> flag set: the tick returns before the
  \<^verbatim>\<open>push_back\<close> when \<^verbatim>\<open>CollectSample\<close> gives an invalid sample.
\<close>

theorem accumulator_holds_valid_samples:
  "reachable E w \<Longrightarrow> \<forall>s\<in>set (samples w). Sample.valid s"
proof (induction rule: reachable.induct)
  case (reachable_init c)
  show ?case by simp
next
  case (reachable_host w c)
  then show ?case by simp
next
  case (reachable_start w)
  then show ?case by (simp add: StartCalibration_def)
next
  case (reachable_tick w vr time w')
  then show ?case using CalibrationTick_samples_valid by blast
qed


lemma CalibrateRotation_fst:
  "fst (CalibrateRotation E ss c) = Kabsch_euler E (crossCV (CalibrateRotation_deltas ss))"
  by (simp add: CalibrateRotation_def Let_def)

lemma CalibrateRotation_snd_fields [simp]:
  "state (snd (CalibrateRotation E ss c)) = state c"
  "targetID (snd (CalibrateRotation E ss c)) = targetID c"
  "referenceID (snd (CalibrateRotation E ss c)) = referenceID c"
  "timeLastTick (snd (CalibrateRotation E ss c)) = timeLastTick c"
  by (simp_all add: CalibrateRotation_def Let_def)

lemma CollectSample_tracked:
  assumes "devicePose ctx (referenceID ctx) = Inr rp" and "devicePose ctx (targetID ctx) = Inr tp"
    and "bPoseIsValid rp" and "bPoseIsValid tp"
  shows "CollectSample ctx =
           Inr (Sample_of (Pose_of_matrix (mDeviceToAbsoluteTracking rp))
                  (Pose_of_matrix (mDeviceToAbsoluteTracking tp)), ctx)"
  using assms by (simp add: CollectSample_def Let_def)

text \<open>
  The accumulator never holds 100 samples between two ticks: the tick that appends the
  hundredth clears it, so the comparison \<^verbatim>\<open>samples.size() == totalSamples\<close> cannot be
  stepped over.
\<close>

lemma Tick_Sample_below_total:
  assumes "Tick_Sample E w = Inr w'" and "length (samples w) < totalSamples"
  shows "length (samples w') < totalSamples"
  using assms
  by (auto simp: Tick_Sample_def Let_def SaveProfile_def totalSamples_def
      split: sum.splits prod.splits if_splits)

lemma CalibrationTick_below_total:
  assumes "CalibrationTick E vr t w = Inr w'" and "length (samples w) < totalSamples"
  shows "length (samples w') < totalSamples"
proof (cases "vr = None \<or> t - timeLastTick (CalCtx w) < 0.05")
  case True
  with assms show ?thesis by (auto simp: CalibrationTick_def split: option.splits)
next
  case False
  then obtain sys where vr: "vr = Some sys" and gap: "\<not> t - timeLastTick (CalCtx w) < 0.05"
    by auto
  let ?w = "w\<lparr>CalCtx := stamped sys t (CalCtx w)\<rparr>"
  from assms(1) vr gap have ts: "Tick_State E sys t ?w = Inr w'"
    by (simp add: CalibrationTick_def)
  show ?thesis
  proof (cases "state (CalCtx w) = Rotation \<or> state (CalCtx w) = Translation")
    case True
    with ts have "Tick_Sample E ?w = Inr w'" by (auto simp: Tick_State_def)
    from Tick_Sample_below_total [OF this] assms(2) show ?thesis by simp
  next
    case False
    then consider "state (CalCtx w) = NoneState" | "state (CalCtx w) = Editing"
      | "state (CalCtx w) = Begin"
      by (cases "state (CalCtx w)") auto
    then show ?thesis
    proof cases
      case 1
      with ts assms(2) show ?thesis by (auto simp: Tick_State_def Let_def split: if_splits)
    next
      case 2
      with ts assms(2) show ?thesis by (auto simp: Tick_State_def Let_def split: if_splits)
    next
      case 3
      with ts have "Tick_Begin ?w = Inr w'" by (simp add: Tick_State_def)
      from Tick_Begin_samples [OF this] assms(2) show ?thesis by simp
    qed
  qed
qed

lemma accumulator_below_total: "reachable E w \<Longrightarrow> length (samples w) < totalSamples"
proof (induction rule: reachable.induct)
  case (reachable_init c)
  show ?case by (simp add: totalSamples_def)
next
  case (reachable_host w c)
  then show ?case by simp
next
  case (reachable_start w)
  then show ?case by (simp add: StartCalibration_def)
next
  case (reachable_tick w vr time w')
  then show ?case using CalibrationTick_below_total by blast
qed

text \<open>
  Claim C5. A tick that is processed in the Rotation state while both devices track
  appends one sample. Exactly when that makes 100, the same tick runs the rotation
  calibrator on the batch, stores its result, sends it to the target device as a rotation
  offset, enables the offsets of the target device, clears the accumulator and moves to
  Translation. For any other size, no calibrator runs: the state, the stored rotation
  and the emulator are as before, and the log gains only the dot.
\<close>

theorem Rotation_tick_hundredth_sample:
  assumes "state (CalCtx w) = Rotation"
    and "0.05 \<le> t - timeLastTick (CalCtx w)"
    and "in_array (referenceID (CalCtx w))" and "in_array (targetID (CalCtx w))"
    and "is_tracking sys (referenceID (CalCtx w))"
    and "is_tracking sys (targetID (CalCtx w))"
  shows "\<exists>w'. CalibrationTick E (Some sys) t w = Inr w'
     \<and> Profiles w' = Profiles w
     \<and> (if length (samples w) + 1 = 100
        then state (CalCtx w') = Translation
           \<and> calibratedRotation (CalCtx w') =
               fst (CalibrateRotation E (samples w @ [sample_of_poses sys (CalCtx w)]) (CalCtx w))
           \<and> InputEmulator w' = InputEmulator w @
               [setWorldFromDriverRotationOffset (targetID (CalCtx w))
                  (VRRotationQuat (calibratedRotation (CalCtx w'))),
                enableDeviceOffsets (targetID (CalCtx w)) True]
           \<and> samples w' = []
        else state (CalCtx w') = Rotation
           \<and> calibratedRotation (CalCtx w') = calibratedRotation (CalCtx w)
           \<and> InputEmulator w' = InputEmulator w
           \<and> messages (CalCtx w') = messages (CalCtx w) @ ''.''
           \<and> samples w' = samples w @ [sample_of_poses sys (CalCtx w)])"
proof -
  let ?c = "stamped sys t (CalCtx w)"
  let ?w = "w\<lparr>CalCtx := ?c\<rparr>"
  have tick: "CalibrationTick E (Some sys) t w = Tick_Sample E ?w"
    using assms(1,2) by (simp add: CalibrationTick_processed Tick_State_def)
  have cs: "CollectSample ?c = Inr (sample_of_poses sys (CalCtx w), ?c)"
    using assms(3-6)
    by (simp add: CollectSample_tracked [where rp = "GetDeviceToAbsoluteTrackingPose sys (nat (referenceID (CalCtx w)))"
          and tp = "GetDeviceToAbsoluteTrackingPose sys (nat (targetID (CalCtx w)))"]
        devicePose_stamped sample_of_poses_def is_tracking_def)
  show ?thesis
  proof (cases "length (samples w) + 1 = 100")
    case True
    obtain e c4 where cr: "CalibrateRotation E (samples w @ [sample_of_poses sys (CalCtx w)])
        (Message (Message ?c ''.'') ''\<newline>'') = (e, c4)"
      by (cases "CalibrateRotation E (samples w @ [sample_of_poses sys (CalCtx w)])
        (Message (Message ?c ''.'') ''\<newline>'')") auto
    have e: "e = fst (CalibrateRotation E (samples w @ [sample_of_poses sys (CalCtx w)]) (CalCtx w))"
      using cr CalibrateRotation_fst [of E "samples w @ [sample_of_poses sys (CalCtx w)]"
          "Message (Message ?c ''.'') ''\<newline>''"]
      by (simp add: CalibrateRotation_fst)
    have c4: "targetID c4 = targetID (CalCtx w)"
      using CalibrateRotation_ctx [OF cr] by simp
    show ?thesis
      unfolding tick using True assms(1) cs cr e c4
      by (simp add: Tick_Sample_def Sample_of_def sample_of_poses_def Let_def totalSamples_def)
  next
    case False
    then show ?thesis
      unfolding tick using assms(1) cs
      by (simp add: Tick_Sample_def Sample_of_def sample_of_poses_def Let_def totalSamples_def)
  qed
qed


lemma sample_of_poses_tracking [simp]:
  "sample_of_poses sys_tracking c = sample_identity"
  by (simp add: sample_of_poses_def sys_tracking_def tracked_def sample_identity_def)

text \<open>The claim at 99 and at 3 accumulated samples.\<close>

theorem Rotation_tick_hundredth_sample_witness:
  "(\<exists>w'. CalibrationTick E0 (Some sys_tracking) 1 (world_rotating 99) = Inr w'
       \<and> state (CalCtx w') = Translation \<and> samples w' = []
       \<and> InputEmulator w' =
           [setWorldFromDriverRotationOffset 1 (VRRotationQuat (calibratedRotation (CalCtx w'))),
            enableDeviceOffsets 1 True])
   \<and> (\<exists>w'. CalibrationTick E0 (Some sys_tracking) 1 (world_rotating 3) = Inr w'
       \<and> state (CalCtx w') = Rotation
       \<and> samples w' = replicate 3 sample_identity @ [sample_identity]
       \<and> InputEmulator w' = [])"
proof -
  have h: "state (CalCtx (world_rotating n)) = Rotation"
    "0.05 \<le> 1 - timeLastTick (CalCtx (world_rotating n))"
    "in_array (referenceID (CalCtx (world_rotating n)))"
    "in_array (targetID (CalCtx (world_rotating n)))"
    "is_tracking sys_tracking (referenceID (CalCtx (world_rotating n)))"
    "is_tracking sys_tracking (targetID (CalCtx (world_rotating n)))" for n
    by (simp_all add: world_rotating_def ctx_selected_def in_array_def
        k_unMaxTrackedDeviceCount_def is_tracking_def sys_tracking_def tracked_def)
  have s: "length (samples (world_rotating n)) = n" "InputEmulator (world_rotating n) = []"
    "targetID (CalCtx (world_rotating n)) = 1"
    "samples (world_rotating n) = replicate n sample_identity" for n
    by (simp_all add: world_rotating_def ctx_selected_def)
  show ?thesis
    using Rotation_tick_hundredth_sample
        [where w = "world_rotating 99" and t = 1 and sys = sys_tracking and E = E0, OF h]
      Rotation_tick_hundredth_sample
        [where w = "world_rotating 3" and t = 1 and sys = sys_tracking and E = E0, OF h]
    by (simp add: s) blast
qed

text \<open>
  Claim C4. After \<^verbatim>\<open>StartCalibration\<close>, the tick that is processed in the Begin state
  does one of two things. If the reference or the target identifier is unset (-1), or
  the runtime reports either device as not tracking, the log names each such device
  ("Missing ... device" or "... device is not tracking") and ends with the abort line,
  the machine is idle, and the emulator is not called: the Rotation state is not
  entered. Otherwise the offsets of the target device are reset and disabled, and the
  machine is in Rotation. Either way the accumulator is left as it was.
\<close>

theorem Begin_tick_outcome:
  assumes "0.05 \<le> t - timeLastTick (CalCtx w)"
    and "referenceID (CalCtx w) = - 1 \<or> in_array (referenceID (CalCtx w))"
    and "targetID (CalCtx w) = - 1 \<or> in_array (targetID (CalCtx w))"
  shows "\<exists>w'. CalibrationTick E (Some sys) t (StartCalibration w) = Inr w'
     \<and> samples w' = samples w \<and> Profiles w' = Profiles w
     \<and> (if referenceID (CalCtx w) \<noteq> - 1 \<and> is_tracking sys (referenceID (CalCtx w))
            \<and> targetID (CalCtx w) \<noteq> - 1 \<and> is_tracking sys (targetID (CalCtx w))
         then state (CalCtx w') = Rotation
            \<and> InputEmulator w' = InputEmulator w @
                [setWorldFromDriverRotationOffset (targetID (CalCtx w)) \<lparr>qw = 1, qx = 0, qy = 0, qz = 0\<rparr>,
                 setWorldFromDriverTranslationOffset (targetID (CalCtx w)) (0, 0, 0),
                 enableDeviceOffsets (targetID (CalCtx w)) False]
            \<and> messages (CalCtx w') =
                snprintf_buf (''Starting calibration, referenceID='' @ printf_d (referenceID (CalCtx w))
                  @ '' targetID='' @ printf_d (targetID (CalCtx w)) @ ''\<newline>'')
         else state (CalCtx w') = NoneState
            \<and> InputEmulator w' = InputEmulator w
            \<and> messages (CalCtx w') =
                (if referenceID (CalCtx w) = - 1 then ''Missing reference device\<newline>''
                 else if \<not> is_tracking sys (referenceID (CalCtx w))
                 then ''Reference device is not tracking\<newline>'' else [])
                @ (if targetID (CalCtx w) = - 1 then ''Missing target device\<newline>''
                   else if \<not> is_tracking sys (targetID (CalCtx w))
                   then ''Target device is not tracking\<newline>'' else [])
                @ ''Aborting calibration!\<newline>'')"
proof -
  let ?w0 = "StartCalibration w"
  let ?c = "stamped sys t (CalCtx ?w0)"
  have t0: "timeLastTick (CalCtx ?w0) = timeLastTick (CalCtx w)"
    by (simp add: StartCalibration_def)
  have tick: "CalibrationTick E (Some sys) t ?w0 = Tick_Begin (?w0\<lparr>CalCtx := ?c\<rparr>)"
    using assms(1) by (simp add: CalibrationTick_processed t0 Tick_State_def) (simp add: StartCalibration_def)
  have f: "referenceID ?c = referenceID (CalCtx w)" "targetID ?c = targetID (CalCtx w)"
    "messages ?c = []"
    by (simp_all add: StartCalibration_def)
  show ?thesis
    unfolding tick using assms(2,3)
    by (auto simp: Tick_Begin_def Begin_reference_def Begin_target_def f devicePose_stamped
        is_tracking_def ResetAndDisableOffsets_def StartCalibration_def Let_def)
qed


lemma CalibrateTranslation_snd_fields [simp]:
  "state (snd (CalibrateTranslation E ss c)) = state c"
  "targetID (snd (CalibrateTranslation E ss c)) = targetID c"
  "referenceID (snd (CalibrateTranslation E ss c)) = referenceID c"
  "timeLastTick (snd (CalibrateTranslation E ss c)) = timeLastTick c"
  by (simp_all add: CalibrateTranslation_def Let_def)

lemma CollectSample_stamped:
  assumes "in_array (referenceID c)" and "in_array (targetID c)"
  shows "\<exists>s c'. CollectSample (stamped sys t c) = Inr (s, c')
           \<and> referenceID c' = referenceID c \<and> targetID c' = targetID c \<and> timeLastTick c' = t
           \<and> (if is_tracking sys (referenceID c) \<and> is_tracking sys (targetID c)
               then s = sample_of_poses sys c \<and> c' = stamped sys t c
               else s = Sample_default \<and> state c' = NoneState)"
  using assms
  by (simp add: CollectSample_def devicePose_stamped is_tracking_def sample_of_poses_def Let_def)

lemma Tick_Sample_returns:
  assumes "in_array (referenceID (CalCtx w))" and "in_array (targetID (CalCtx w))"
    and "state (CalCtx w) = Rotation \<or> state (CalCtx w) = Translation"
  shows "\<exists>w'. Tick_Sample E (w\<lparr>CalCtx := stamped sys t (CalCtx w)\<rparr>) = Inr w'
           \<and> timeLastTick (CalCtx w') = t
           \<and> referenceID (CalCtx w') = referenceID (CalCtx w)
           \<and> targetID (CalCtx w') = targetID (CalCtx w)"
proof -
  obtain s c' where cs: "CollectSample (stamped sys t (CalCtx w)) = Inr (s, c')"
    and f: "referenceID c' = referenceID (CalCtx w)" "targetID c' = targetID (CalCtx w)"
      "timeLastTick c' = t"
    using CollectSample_stamped [OF assms(1,2), of sys t] by blast
  show ?thesis
    using cs f
    by (simp add: Tick_Sample_def Let_def SaveProfile_def split_beta)
qed

lemma Tick_Begin_returns:
  assumes "referenceID (CalCtx w) = - 1 \<or> in_array (referenceID (CalCtx w))"
    and "targetID (CalCtx w) = - 1 \<or> in_array (targetID (CalCtx w))"
  shows "\<exists>w'. Tick_Begin (w\<lparr>CalCtx := stamped sys t (CalCtx w)\<rparr>) = Inr w'
           \<and> timeLastTick (CalCtx w') = t
           \<and> referenceID (CalCtx w') = referenceID (CalCtx w)
           \<and> targetID (CalCtx w') = targetID (CalCtx w)
           \<and> (state (CalCtx w') = NoneState
               \<or> state (CalCtx w') = Rotation \<and> in_array (referenceID (CalCtx w))
                  \<and> in_array (targetID (CalCtx w)))"
  using assms
  by (auto simp: Tick_Begin_def Begin_reference_def Begin_target_def devicePose_stamped
      ResetAndDisableOffsets_def Let_def)

lemma Tick_State_returns:
  assumes "ids_readable (CalCtx w)"
  shows "\<exists>w'. Tick_State E sys t (w\<lparr>CalCtx := stamped sys t (CalCtx w)\<rparr>) = Inr w'
           \<and> timeLastTick (CalCtx w') = t \<and> ids_readable (CalCtx w')"
proof (cases "state (CalCtx w)")
  case NoneState
  then show ?thesis by (simp add: Tick_State_def Let_def ids_readable_def)
next
  case Editing
  then show ?thesis by (simp add: Tick_State_def Let_def ids_readable_def)
next
  case Begin
  with assms have ids: "referenceID (CalCtx w) = - 1 \<or> in_array (referenceID (CalCtx w))"
    "targetID (CalCtx w) = - 1 \<or> in_array (targetID (CalCtx w))"
    by (simp_all add: ids_readable_def)
  from Tick_Begin_returns [OF ids, of sys t] Begin show ?thesis
    by (auto simp: Tick_State_def ids_readable_def)
next
  case Rotation
  with assms have ids: "in_array (referenceID (CalCtx w))" "in_array (targetID (CalCtx w))"
    by (simp_all add: ids_readable_def)
  from Tick_Sample_returns [OF ids, of E sys t] Rotation ids show ?thesis
    by (auto simp: Tick_State_def ids_readable_def split: CalibrationState.split)
next
  case Translation
  with assms have ids: "in_array (referenceID (CalCtx w))" "in_array (targetID (CalCtx w))"
    by (simp_all add: ids_readable_def)
  from Tick_Sample_returns [OF ids, of E sys t] Translation ids show ?thesis
    by (auto simp: Tick_State_def ids_readable_def split: CalibrationState.split)
qed

lemma CalibrationTick_returns:
  assumes "ids_readable (CalCtx w)" and "0.05 \<le> t - timeLastTick (CalCtx w)"
  shows "\<exists>w'. CalibrationTick E (Some sys) t w = Inr w'
           \<and> timeLastTick (CalCtx w') = t \<and> ids_readable (CalCtx w')"
  using Tick_State_returns [OF assms(1)] assms(2) by (simp add: CalibrationTick_processed)

text \<open>
  Claim C3, as amended. Without a runtime (\<^verbatim>\<open>vr::VRSystem()\<close> is null) a tick is a no-op
  whatever its time. With a runtime, a tick at least 0.05 s after the last processed one
  is processed: it returns with its time recorded as that of the last processed tick.
  After it, every tick less than 0.05 s later is a no-op (so of two ticks 10 ms apart
  only the first advances the state), and every tick at least 0.05 s later, 60 ms for
  instance, is processed in turn.
\<close>

theorem tick_debounce:
  assumes "ids_readable (CalCtx w)" and "0.05 \<le> t - timeLastTick (CalCtx w)"
  shows "CalibrationTick E None t w = Inr w
     \<and> (\<exists>w1. CalibrationTick E (Some sys) t w = Inr w1
          \<and> timeLastTick (CalCtx w1) = t
          \<and> (\<forall>vr d. d < 0.05 \<longrightarrow> CalibrationTick E vr (t + d) w1 = Inr w1)
          \<and> (\<forall>sys' d. 0.05 \<le> d \<longrightarrow>
                (\<exists>w2. CalibrationTick E (Some sys') (t + d) w1 = Inr w2
                   \<and> timeLastTick (CalCtx w2) = t + d)))"
proof -
  obtain w1 where w1: "CalibrationTick E (Some sys) t w = Inr w1"
    "timeLastTick (CalCtx w1) = t" "ids_readable (CalCtx w1)"
    using CalibrationTick_returns [OF assms] by blast
  have near: "CalibrationTick E vr (t + d) w1 = Inr w1" if "d < 0.05" for vr d
    using that w1(2) by (simp add: CalibrationTick_debounced)
  have far: "\<exists>w2. CalibrationTick E (Some sys') (t + d) w1 = Inr w2
               \<and> timeLastTick (CalCtx w2) = t + d" if "0.05 \<le> d" for sys' d
    using CalibrationTick_returns [OF w1(3), of "t + d" E sys'] that w1(2) by auto
  from w1 near far show ?thesis by (auto simp: CalibrationTick_None)
qed


lemma world_start_facts:
  "ids_readable (CalCtx world_start)" "timeLastTick (CalCtx world_start) = 0"
  by (simp_all add: world_start_def ctx_selected_def ids_readable_def)

text \<open>The amended claim from the start of the program: ticks at 1 s, 1.01 s and 1.06 s.\<close>

theorem tick_debounce_witness:
  "\<exists>w1. CalibrationTick E0 (Some sys_tracking) 1 world_start = Inr w1
      \<and> timeLastTick (CalCtx w1) = 1
      \<and> CalibrationTick E0 (Some sys_tracking) (1 + 0.01) w1 = Inr w1
      \<and> (\<exists>w2. CalibrationTick E0 (Some sys_tracking) (1 + 0.06) w1 = Inr w2
             \<and> timeLastTick (CalCtx w2) = 1 + 0.06)"
proof -
  have gap: "0.05 \<le> 1 - timeLastTick (CalCtx world_start)"
    by (simp add: world_start_facts)
  from tick_debounce [OF world_start_facts(1) gap, of E0 sys_tracking]
  obtain w1 where w1: "CalibrationTick E0 (Some sys_tracking) 1 world_start = Inr w1"
    "timeLastTick (CalCtx w1) = 1"
    "\<forall>vr d. d < 0.05 \<longrightarrow> CalibrationTick E0 vr (1 + d) w1 = Inr w1"
    "\<forall>sys' d. 0.05 \<le> d \<longrightarrow>
                (\<exists>w2. CalibrationTick E0 (Some sys') (1 + d) w1 = Inr w2
                   \<and> timeLastTick (CalCtx w2) = 1 + d)"
    by blast
  have "(0.01::real) < 0.05" and "(0.05::real) \<le> 0.06"
    by simp_all
  with w1(3,4) have a: "CalibrationTick E0 (Some sys_tracking) (1 + 0.01) w1 = Inr w1"
    and b: "\<exists>w2. CalibrationTick E0 (Some sys_tracking) (1 + 0.06) w1 = Inr w2
             \<and> timeLastTick (CalCtx w2) = 1 + 0.06"
    by blast+
  from w1(1,2) a b show ?thesis by blast
qed

text \<open>
  Claim C3 as stated fails: with no runtime, a tick a full second after the last
  processed one changes nothing, the recorded time included.
\<close>

theorem tick_without_runtime_is_skipped:
  "0.06 \<le> 1 - timeLastTick (CalCtx world_start)
   \<and> CalibrationTick E0 None 1 world_start = Inr world_start
   \<and> timeLastTick (CalCtx world_start) \<noteq> 1"
  by (simp add: CalibrationTick_def world_start_def ctx_selected_def)

lemma printf_d_0: "printf_d 0 = ''0''"
  by (simp add: printf_d_def digit_def)

lemma printf_d_1: "printf_d 1 = ''1''"
  by (simp add: printf_d_def digit_def)

text \<open>
  The claim with no device selected, with the target not tracking, and with both
  devices tracking.
\<close>

theorem Begin_tick_outcome_witness:
  "(\<exists>w'. CalibrationTick E0 (Some sys_tracking) 1 (StartCalibration world_unselected) = Inr w'
       \<and> state (CalCtx w') = NoneState
       \<and> messages (CalCtx w') =
           ''Missing reference device\<newline>'' @ ''Missing target device\<newline>''
             @ ''Aborting calibration!\<newline>''
       \<and> InputEmulator w' = [])
   \<and> (\<exists>w'. CalibrationTick E0 (Some sys_lost) 1 (StartCalibration world_start) = Inr w'
       \<and> state (CalCtx w') = NoneState
       \<and> messages (CalCtx w') =
           ''Target device is not tracking\<newline>'' @ ''Aborting calibration!\<newline>''
       \<and> InputEmulator w' = [])
   \<and> (\<exists>w'. CalibrationTick E0 (Some sys_tracking) 1 (StartCalibration world_start) = Inr w'
       \<and> state (CalCtx w') = Rotation
       \<and> messages (CalCtx w') = ''Starting calibration, referenceID=0 targetID=1\<newline>''
       \<and> InputEmulator w' =
           [setWorldFromDriverRotationOffset 1 \<lparr>qw = 1, qx = 0, qy = 0, qz = 0\<rparr>,
            setWorldFromDriverTranslationOffset 1 (0, 0, 0),
            enableDeviceOffsets 1 False])"
proof -
  have u: "0.05 \<le> 1 - timeLastTick (CalCtx world_unselected)"
    "referenceID (CalCtx world_unselected) = - 1 \<or> in_array (referenceID (CalCtx world_unselected))"
    "targetID (CalCtx world_unselected) = - 1 \<or> in_array (targetID (CalCtx world_unselected))"
    by (simp_all add: world_unselected_def ctx_unselected_def ctx_selected_def)
  have s: "0.05 \<le> 1 - timeLastTick (CalCtx world_start)"
    "referenceID (CalCtx world_start) = - 1 \<or> in_array (referenceID (CalCtx world_start))"
    "targetID (CalCtx world_start) = - 1 \<or> in_array (targetID (CalCtx world_start))"
    by (simp_all add: world_start_def ctx_selected_def in_array_def k_unMaxTrackedDeviceCount_def)
  have fu: "referenceID (CalCtx world_unselected) = - 1" "targetID (CalCtx world_unselected) = - 1"
    "InputEmulator world_unselected = []"
    by (simp_all add: world_unselected_def ctx_unselected_def ctx_selected_def)
  have fs: "referenceID (CalCtx world_start) = 0" "targetID (CalCtx world_start) = 1"
    "InputEmulator world_start = []"
    by (simp_all add: world_start_def ctx_selected_def)
  have tr: "is_tracking sys_tracking i" "is_tracking sys_lost 0" "\<not> is_tracking sys_lost 1" for i
    by (simp_all add: is_tracking_def sys_tracking_def sys_lost_def tracked_def untracked_def)
  have 1: "\<exists>w'. CalibrationTick E0 (Some sys_tracking) 1 (StartCalibration world_unselected) = Inr w'
       \<and> state (CalCtx w') = NoneState
       \<and> messages (CalCtx w') =
           ''Missing reference device\<newline>'' @ ''Missing target device\<newline>''
             @ ''Aborting calibration!\<newline>''
       \<and> InputEmulator w' = []"
    using Begin_tick_outcome [OF u, of E0 sys_tracking] by (simp add: fu) blast
  have 2: "\<exists>w'. CalibrationTick E0 (Some sys_lost) 1 (StartCalibration world_start) = Inr w'
       \<and> state (CalCtx w') = NoneState
       \<and> messages (CalCtx w') =
           ''Target device is not tracking\<newline>'' @ ''Aborting calibration!\<newline>''
       \<and> InputEmulator w' = []"
    using Begin_tick_outcome [OF s, of E0 sys_lost] by (simp add: fs tr) blast
  have 3: "\<exists>w'. CalibrationTick E0 (Some sys_tracking) 1 (StartCalibration world_start) = Inr w'
       \<and> state (CalCtx w') = Rotation
       \<and> messages (CalCtx w') = ''Starting calibration, referenceID=0 targetID=1\<newline>''
       \<and> InputEmulator w' =
           [setWorldFromDriverRotationOffset 1 \<lparr>qw = 1, qx = 0, qy = 0, qz = 0\<rparr>,
            setWorldFromDriverTranslationOffset 1 (0, 0, 0),
            enableDeviceOffsets 1 False]"
    using Begin_tick_outcome [OF s, of E0 sys_tracking]
    by (simp add: fs tr printf_d_0 printf_d_1 snprintf_buf_def) blast
  from 1 2 3 show ?thesis by blast
qed

text \<open>
  Claim C9. Whatever the current state, \<^verbatim>\<open>StartCalibration\<close> sets the state to Begin,
  the wanted update interval to zero and the message buffer to the empty string, and
  changes nothing else; no condition on the state is checked, so a run in Rotation or
  Translation is restarted.
\<close>

theorem StartCalibration_unconditional:
  "state (CalCtx (StartCalibration w)) = Begin
   \<and> wantedUpdateInterval (CalCtx (StartCalibration w)) = 0
   \<and> messages (CalCtx (StartCalibration w)) = []
   \<and> StartCalibration w =
       w\<lparr>CalCtx := (CalCtx w)\<lparr>state := Begin, wantedUpdateInterval := 0, messages := []\<rparr>\<rparr>
   \<and> samples (StartCalibration w) = samples w"
  by (simp add: StartCalibration_def)

section \<open>Reaching a partly filled accumulator\<close>

lemma sampling_tick_tracked:
  assumes "state (CalCtx w) = Rotation \<or> state (CalCtx w) = Translation"
    and "0.05 \<le> t - timeLastTick (CalCtx w)"
    and "in_array (referenceID (CalCtx w))" and "in_array (targetID (CalCtx w))"
    and "is_tracking sys (referenceID (CalCtx w))" and "is_tracking sys (targetID (CalCtx w))"
    and "length (samples w) + 1 \<noteq> 100"
  shows "CalibrationTick E (Some sys) t w =
           Inr (w\<lparr>CalCtx := Message (stamped sys t (CalCtx w)) ''.'',
                  samples := samples w @ [sample_of_poses sys (CalCtx w)]\<rparr>)"
proof -
  let ?c = "stamped sys t (CalCtx w)"
  have tick: "CalibrationTick E (Some sys) t w = Tick_Sample E (w\<lparr>CalCtx := ?c\<rparr>)"
    using assms(1,2) by (auto simp: CalibrationTick_processed Tick_State_def)
  have cs: "CollectSample ?c = Inr (sample_of_poses sys (CalCtx w), ?c)"
    using CollectSample_stamped [OF assms(3,4), of sys t] assms(5,6) by auto
  show ?thesis
    unfolding tick using cs assms(7)
    by (simp add: Tick_Sample_def sample_of_poses_def Sample_of_def Let_def totalSamples_def)
qed

lemma sampling_tick_lost:
  assumes "state (CalCtx w) = Rotation \<or> state (CalCtx w) = Translation"
    and "0.05 \<le> t - timeLastTick (CalCtx w)"
    and "in_array (referenceID (CalCtx w))" and "in_array (targetID (CalCtx w))"
    and "\<not> (is_tracking sys (referenceID (CalCtx w)) \<and> is_tracking sys (targetID (CalCtx w)))"
  shows "\<exists>w'. CalibrationTick E (Some sys) t w = Inr w'
           \<and> state (CalCtx w') = NoneState
           \<and> samples w' = samples w \<and> InputEmulator w' = InputEmulator w
           \<and> referenceID (CalCtx w') = referenceID (CalCtx w)
           \<and> targetID (CalCtx w') = targetID (CalCtx w)
           \<and> timeLastTick (CalCtx w') = t"
proof -
  let ?c = "stamped sys t (CalCtx w)"
  have tick: "CalibrationTick E (Some sys) t w = Tick_Sample E (w\<lparr>CalCtx := ?c\<rparr>)"
    using assms(1,2) by (auto simp: CalibrationTick_processed Tick_State_def)
  obtain c' where cs: "CollectSample ?c = Inr (Sample_default, c')"
    and f: "state c' = NoneState" "referenceID c' = referenceID (CalCtx w)"
      "targetID c' = targetID (CalCtx w)" "timeLastTick c' = t"
    using CollectSample_stamped [OF assms(3,4), of sys t] assms(5) by auto
  show ?thesis
    unfolding tick using cs f by (simp add: Tick_Sample_def Sample_default_def)
qed

lemma begin_tick_tracked:
  assumes "state (CalCtx w) = Begin"
    and "0.05 \<le> t - timeLastTick (CalCtx w)"
    and "in_array (referenceID (CalCtx w))" and "in_array (targetID (CalCtx w))"
    and "is_tracking sys (referenceID (CalCtx w))" and "is_tracking sys (targetID (CalCtx w))"
  shows "\<exists>w'. CalibrationTick E (Some sys) t w = Inr w'
           \<and> state (CalCtx w') = Rotation
           \<and> samples w' = samples w
           \<and> referenceID (CalCtx w') = referenceID (CalCtx w)
           \<and> targetID (CalCtx w') = targetID (CalCtx w)
           \<and> timeLastTick (CalCtx w') = t"
proof -
  have tick: "CalibrationTick E (Some sys) t w = Tick_Begin (w\<lparr>CalCtx := stamped sys t (CalCtx w)\<rparr>)"
    using assms(1,2) by (simp add: CalibrationTick_processed Tick_State_def)
  from assms(3,4) have "referenceID (CalCtx w) \<noteq> - 1" "targetID (CalCtx w) \<noteq> - 1"
    by (auto simp: in_array_def)
  then show ?thesis
    unfolding tick using assms(3-6)
    by (simp add: Tick_Begin_def Begin_reference_def Begin_target_def devicePose_stamped
        is_tracking_def ResetAndDisableOffsets_def Let_def)
qed

lemma world_rotating_facts:
  "state (CalCtx (world_rotating n)) = Rotation"
  "0.05 \<le> 1 - timeLastTick (CalCtx (world_rotating n))"
  "in_array (referenceID (CalCtx (world_rotating n)))"
  "in_array (targetID (CalCtx (world_rotating n)))"
  "referenceID (CalCtx (world_rotating n)) = 0"
  "targetID (CalCtx (world_rotating n)) = 1"
  "samples (world_rotating n) = replicate n sample_identity"
  "InputEmulator (world_rotating n) = []"
  by (simp_all add: world_rotating_def ctx_selected_def in_array_def k_unMaxTrackedDeviceCount_def)

lemma tracking_facts:
  "is_tracking sys_tracking i" "is_tracking sys_lost 0" "\<not> is_tracking sys_lost 1"
  by (simp_all add: is_tracking_def sys_tracking_def sys_lost_def tracked_def untracked_def)

lemma reachable_world_rotating: "n < 100 \<Longrightarrow> reachable E (world_rotating n)"
proof (induction n)
  case 0
  show ?case unfolding world_rotating_def replicate.simps by (rule reachable_init)
next
  case (Suc n)
  then have r: "reachable E (world_rotating n)" and n: "length (samples (world_rotating n)) + 1 \<noteq> 100"
    by (simp_all add: world_rotating_facts)
  have h: "state (CalCtx (world_rotating n)) = Rotation \<or> state (CalCtx (world_rotating n)) = Translation"
    by (simp add: world_rotating_facts)
  have "CalibrationTick E (Some sys_tracking) 1 (world_rotating n) =
          Inr ((world_rotating n)\<lparr>CalCtx := Message (stamped sys_tracking 1 (CalCtx (world_rotating n))) ''.'',
                  samples := samples (world_rotating n) @ [sample_of_poses sys_tracking (CalCtx (world_rotating n))]\<rparr>)"
    by (rule sampling_tick_tracked [OF h world_rotating_facts(2,3,4) tracking_facts(1) tracking_facts(1) n])
  from reachable_host [OF reachable_tick [OF r this], of "ctx_selected\<lparr>state := Rotation\<rparr>"]
  show ?case by (simp add: world_rotating_def replicate_append_same)
qed

text \<open>Claim C8 at a reachable state with two samples in the accumulator.\<close>

theorem accumulator_holds_valid_samples_witness:
  "reachable E0 (world_rotating 2)
   \<and> samples (world_rotating 2) = [sample_identity, sample_identity]
   \<and> Sample.valid sample_identity"
proof -
  have r: "reachable E0 (world_rotating 2)"
    by (rule reachable_world_rotating) simp
  have s: "samples (world_rotating 2) = [sample_identity, sample_identity]"
    by (simp add: world_rotating_def numeral_2_eq_2)
  from accumulator_holds_valid_samples [OF r] s have "Sample.valid sample_identity"
    by simp
  with r s show ?thesis by simp
qed

section \<open>Tracking loss in the middle of a batch\<close>

text \<open>
  Claim C1, on the code. The run below loses tracking of the target with 50 samples in
  the accumulator. The tick returns the machine to the idle state, but the 50 samples
  stay in the static vector: neither the abort nor the Begin branch clears it
  (\<^verbatim>\<open>samples.clear()\<close> is reached only when a batch of 100 completes). After
  \<^verbatim>\<open>StartCalibration\<close> and a successful Begin tick the accumulator still holds them, and the
  first sample of the new run is the 51st of the batch, not the first.
\<close>

theorem aborted_batch_is_kept:
  "reachable E0 (world_rotating 50)
   \<and> (\<exists>w1 w2 w3.
         CalibrationTick E0 (Some sys_lost) 1 (world_rotating 50) = Inr w1
       \<and> state (CalCtx w1) = NoneState \<and> length (samples w1) = 50
       \<and> CalibrationTick E0 (Some sys_tracking) 2 (StartCalibration w1) = Inr w2
       \<and> state (CalCtx w2) = Rotation \<and> length (samples w2) = 50
       \<and> CalibrationTick E0 (Some sys_tracking) 3 w2 = Inr w3
       \<and> state (CalCtx w3) = Rotation \<and> length (samples w3) = 51)"
proof -
  have r: "reachable E0 (world_rotating 50)"
    by (rule reachable_world_rotating) simp
  have h: "state (CalCtx (world_rotating 50)) = Rotation \<or> state (CalCtx (world_rotating 50)) = Translation"
    by (simp add: world_rotating_facts)
  have lost: "\<not> (is_tracking sys_lost (referenceID (CalCtx (world_rotating 50)))
      \<and> is_tracking sys_lost (targetID (CalCtx (world_rotating 50))))"
    by (simp add: world_rotating_facts tracking_facts)
  obtain w1 where w1: "CalibrationTick E0 (Some sys_lost) 1 (world_rotating 50) = Inr w1"
    "state (CalCtx w1) = NoneState" "samples w1 = replicate 50 sample_identity"
    "referenceID (CalCtx w1) = 0" "targetID (CalCtx w1) = 1" "timeLastTick (CalCtx w1) = 1"
    using sampling_tick_lost [OF h world_rotating_facts(2,3,4) lost, of E0]
    by (auto simp: world_rotating_facts)
  let ?s = "StartCalibration w1"
  have s: "state (CalCtx ?s) = Begin" "0.05 \<le> 2 - timeLastTick (CalCtx ?s)"
    "in_array (referenceID (CalCtx ?s))" "in_array (targetID (CalCtx ?s))"
    "is_tracking sys_tracking (referenceID (CalCtx ?s))"
    "is_tracking sys_tracking (targetID (CalCtx ?s))"
    using w1 by (simp_all add: StartCalibration_def in_array_def k_unMaxTrackedDeviceCount_def
        tracking_facts)
  obtain w2 where w2: "CalibrationTick E0 (Some sys_tracking) 2 ?s = Inr w2"
    "state (CalCtx w2) = Rotation" "samples w2 = replicate 50 sample_identity"
    "referenceID (CalCtx w2) = 0" "targetID (CalCtx w2) = 1" "timeLastTick (CalCtx w2) = 2"
    using begin_tick_tracked [OF s, of E0] w1 by (auto simp: StartCalibration_def)
  have t: "state (CalCtx w2) = Rotation \<or> state (CalCtx w2) = Translation"
    "0.05 \<le> 3 - timeLastTick (CalCtx w2)"
    "in_array (referenceID (CalCtx w2))" "in_array (targetID (CalCtx w2))"
    "is_tracking sys_tracking (referenceID (CalCtx w2))"
    "is_tracking sys_tracking (targetID (CalCtx w2))"
    "length (samples w2) + 1 \<noteq> 100"
    using w2 by (simp_all add: in_array_def k_unMaxTrackedDeviceCount_def tracking_facts)
  from sampling_tick_tracked [OF t, of E0]
  obtain w3 where w3: "CalibrationTick E0 (Some sys_tracking) 3 w2 = Inr w3"
    "state (CalCtx w3) = Rotation" "length (samples w3) = 51"
    using w2 by simp
  from r w1 w2 w3 show ?thesis by auto
qed

section \<open>The rotation calibrator\<close>

lemma Matrix3d_cases:
  obtains a00 a01 a02 a10 a11 a12 a20 a21 a22 :: real
  where "m = ((a00, a01, a02), (a10, a11, a12), (a20, a21, a22))"
  by (metis prod.collapse)

lemma mmul_Identity3: "mmul V Identity3 = V"
  by (cases V rule: Matrix3d_cases) (simp add: mmul_def Identity3_def)

lemma mmul_Identity3_flipped: "mmul V Identity3_flipped = negate_third_column V"
  by (cases V rule: Matrix3d_cases) (simp add: mmul_def Identity3_flipped_def)

lemma degrees_eq: "vdiv (vscale v 180) pi = degrees v"
  by (cases v) (simp add: degrees_def)

lemma Kabsch_euler_spec: "Kabsch_euler E cv = spec_rotation_step E cv"
  by (simp add: Kabsch_euler_def spec_rotation_step_def Let_def mmul_Identity3
      mmul_Identity3_flipped degrees_eq split: prod.split)

lemma subtract_centroid_finite:
  "those (subtract_centroid rows (Some c)) = Some (map (\<lambda>r. vsub r c) rows)"
  by (induction rows) (simp_all add: subtract_centroid_def)

lemma crossCV_nonempty:
  assumes "deltas \<noteq> []"
  shows "crossCV deltas = Some (spec_cross_covariance deltas)"
  using assms
  by (simp add: crossCV_def cross_covariance_from_def refCentroid_def targetCentroid_def
      div_by_count_def subtract_centroid_finite spec_cross_covariance_def centred_def)

lemma cross_covariance_from_empty: "cross_covariance_from [] refC targetC = Some ZeroMatrix3"
  by (simp add: cross_covariance_from_def subtract_centroid_def transpose_times_def)

lemma crossCV_empty: "crossCV [] = Some ZeroMatrix3"
  by (simp add: crossCV_def cross_covariance_from_empty)

text \<open>
  Claim C6. The rotation calibrator hands the cross-covariance of the centred reference
  and target axes of the valid deltas to the singular value decomposition. When the
  determinant of U times V transposed is negative it negates the third column of V, the
  axis of the smallest singular value (multiplying V by the identity with -1 at (2,2) is
  that negation), composes V' times U transposed, transposes the result and returns its
  Euler angles for the axes Z, Y, X (2, 1, 0), in degrees.
\<close>

theorem CalibrateRotation_is_Kabsch:
  "fst (CalibrateRotation E batch ctx) =
     spec_rotation_step E (crossCV (CalibrateRotation_deltas batch))
   \<and> (CalibrateRotation_deltas batch \<noteq> [] \<longrightarrow>
        crossCV (CalibrateRotation_deltas batch) =
          Some (spec_cross_covariance (CalibrateRotation_deltas batch)))"
  by (simp add: CalibrateRotation_fst Kabsch_euler_spec crossCV_nonempty)

lemma deltas_of_two:
  "CalibrateRotation_deltas [a, b] = filter DSample.valid [DeltaRotationSamples b a]"
  by (simp add: CalibrateRotation_deltas_def upt_rec)

text \<open>The claim for an unrotated sample followed by one turned by a right angle.\<close>

theorem CalibrateRotation_is_Kabsch_witness:
  "CalibrateRotation_deltas [sample_identity, sample_quarter_turn] \<noteq> []
   \<and> crossCV (CalibrateRotation_deltas [sample_identity, sample_quarter_turn]) =
       Some (spec_cross_covariance (CalibrateRotation_deltas [sample_identity, sample_quarter_turn]))
   \<and> fst (CalibrateRotation E0 [sample_identity, sample_quarter_turn] ctx_selected) =
       spec_rotation_step E0 (crossCV (CalibrateRotation_deltas [sample_identity, sample_quarter_turn]))"
proof -
  have ne: "CalibrateRotation_deltas [sample_identity, sample_quarter_turn] \<noteq> []"
    by (simp add: deltas_of_two quarter_pair_valid)
  with CalibrateRotation_is_Kabsch [of E0 "[sample_identity, sample_quarter_turn]" ctx_selected]
  show ?thesis by blast
qed

text \<open>
  Claim C10, as amended. When no pair of samples gives a valid delta, both centroid
  accumulators are divided by the count zero: nothing guards the division (a centroid is
  not finite exactly when there is no delta), and both centroids are not finite. No
  error is raised and the calibrator goes on, but not on the centroids: with no delta the
  centring loops run over no row, so whatever the centroids are, the matrix handed to the
  decomposition is the 3x3 zero matrix, and the result is the Euler angles of its
  decomposition.
\<close>

theorem no_surviving_delta:
  "(refCentroid deltas = None \<longleftrightarrow> deltas = [])
   \<and> (targetCentroid deltas = None \<longleftrightarrow> deltas = [])
   \<and> (CalibrateRotation_deltas batch = [] \<longrightarrow>
        refCentroid (CalibrateRotation_deltas batch) = None
        \<and> targetCentroid (CalibrateRotation_deltas batch) = None
        \<and> (\<forall>refC targetC.
              cross_covariance_from (CalibrateRotation_deltas batch) refC targetC = Some ZeroMatrix3)
        \<and> crossCV (CalibrateRotation_deltas batch) = Some ZeroMatrix3
        \<and> fst (CalibrateRotation E batch ctx) = Kabsch_euler E (Some ZeroMatrix3))"
  by (simp add: refCentroid_def targetCentroid_def div_by_count_def CalibrateRotation_fst
      crossCV_empty cross_covariance_from_empty)

text \<open>The amended claim for two samples of the same pose: their only pair is invalid.\<close>

theorem no_surviving_delta_witness:
  "CalibrateRotation_deltas [sample_identity, sample_identity] = []
   \<and> refCentroid (CalibrateRotation_deltas [sample_identity, sample_identity]) = None
   \<and> targetCentroid (CalibrateRotation_deltas [sample_identity, sample_identity]) = None
   \<and> cross_covariance_from (CalibrateRotation_deltas [sample_identity, sample_identity])
        (Some (1, 2, 3)) None = Some ZeroMatrix3
   \<and> crossCV (CalibrateRotation_deltas [sample_identity, sample_identity]) = Some ZeroMatrix3
   \<and> fst (CalibrateRotation E0 [sample_identity, sample_identity] ctx_selected) =
       Kabsch_euler E0 (Some ZeroMatrix3)"
proof -
  have e: "CalibrateRotation_deltas [sample_identity, sample_identity] = []"
    by (simp add: deltas_of_two identity_pair_invalid)
  with no_surviving_delta [of "[]" "[sample_identity, sample_identity]" E0 ctx_selected]
  show ?thesis by blast
qed

text \<open>
  Claim C10 as stated fails. For two samples of the same pose no delta survives and both
  centroids are not finite, yet the computation after the division does not run on them:
  the matrix that is decomposed is finite, the zero matrix, and it is the same when the
  centroids are replaced by finite vectors. What happens to a centroid that is not finite
  when there are rows is seen with one delta: the matrix is then not finite.
\<close>

theorem non_finite_centroids_are_not_read:
  "CalibrateRotation_deltas [sample_identity, sample_identity] = []
   \<and> refCentroid (CalibrateRotation_deltas [sample_identity, sample_identity]) = None
   \<and> targetCentroid (CalibrateRotation_deltas [sample_identity, sample_identity]) = None
   \<and> crossCV (CalibrateRotation_deltas [sample_identity, sample_identity]) = Some ZeroMatrix3
   \<and> cross_covariance_from (CalibrateRotation_deltas [sample_identity, sample_identity])
        (Some Zero3) (Some Zero3) = Some ZeroMatrix3
   \<and> cross_covariance_from
        [\<lparr>DSample.valid = True, DSample.ref = (0, 0, 1), DSample.target = (0, 0, 1)\<rparr>]
        None None = None"
  by (simp add: deltas_of_two identity_pair_invalid refCentroid_def targetCentroid_def
      div_by_count_def crossCV_empty cross_covariance_from_empty)
    (simp add: cross_covariance_from_def subtract_centroid_def)

section \<open>The translation calibrator\<close>










end
